theory Spec2Isabelle
  imports Complex_Main "HOL-Library.Multiset" "HOL-Library.Log_Nat"
begin

section \<open>Host values: numbers, strings, results\<close>

text \<open>
  The ledger handlers of the budgeting application (the \<open>App\<close> component) are embedded
  as functions on an explicit application state. Everything the handlers take from the
  host is an explicit input (record \<open>env\<close> below): the built-in \<open>parseFloat\<close>, the
  conversion of a number to text inside a template string, today's date, the answer to
  \<open>window.confirm\<close> and the identifiers drawn from \<open>Math.random\<close>.

  A JavaScript \<open>number\<close> is an IEEE 754 double: \<open>NaN\<close>, an infinity, the negative
  zero, or a finite value, \<open>Num r\<close> with \<open>r\<close> the exact rational value of the double
  (\<open>Num 0\<close> is the positive zero). The arithmetic rounds as the language does: the
  exact result is rounded to the nearest double, ties to the even significand, with 53
  bits of significand, gradual underflow and overflow to an infinity.
\<close>

datatype number = NaN | PosInf | NegInf | NegZero | Num rat

text \<open>
  \<open>pow2 e\<close> is 2 to the power \<open>e\<close>; \<open>ilog2 a\<close> is the integer part of the binary
  logarithm of \<open>a > 0\<close>.
\<close>

definition pow2 :: "int \<Rightarrow> rat" where
  "pow2 e = (if 0 \<le> e then 2 ^ nat e else 1 / 2 ^ nat (- e))"

definition ilog2 :: "rat \<Rightarrow> int" where
  "ilog2 a = (case quotient_of a of (p, q) \<Rightarrow>
     (let d = bitlen p - bitlen q in if pow2 d \<le> a then d else d - 1))"

definition roundHalfEven :: "rat \<Rightarrow> int" where
  "roundHalfEven x =
     (let f = \<lfloor>x\<rfloor>; d = x - of_int f
      in if d < 1 / 2 then f else if 1 / 2 < d then f + 1 else if even f then f else f + 1)"

text \<open>
  The double nearest to the exact value \<open>r\<close>. With \<open>e\<close> the binary exponent of \<open>r\<close> (at
  least \<open>-1022\<close>, where the subnormal numbers begin), the doubles around \<open>r\<close> are the
  multiples of \<open>q = pow2 (e - 52)\<close>, and \<open>m\<close> is the multiple nearest to \<open>r\<close>, the even
  one of two equally near. A result of \<open>pow2 1024\<close> or more is an infinity; a result of
  zero keeps the sign of \<open>r\<close>.
\<close>

definition round_double :: "rat \<Rightarrow> number" where
  "round_double r =
     (if r = 0 then Num 0
      else
        (let a = \<bar>r\<bar>;
             e = max (ilog2 a) (- 1022);
             q = pow2 (e - 52);
             m = roundHalfEven (a / q)
         in if 1024 \<le> e \<or> (e = 1023 \<and> m = 2 ^ 53) then (if 0 < r then PosInf else NegInf)
            else if m = 0 then (if 0 < r then Num 0 else NegZero)
            else Num (if 0 < r then of_int m * q else - (of_int m * q))))"

text \<open>The value of a finite number, both zeros being 0.\<close>

fun fin :: "number \<Rightarrow> rat" where
  "fin (Num r) = r"
| "fin _ = 0"

text \<open>
  \<open>x + y\<close>: \<open>NaN\<close> is absorbing, infinities of opposite sign give \<open>NaN\<close>, two negative
  zeros give the negative zero, and every other sum is the rounded exact sum (so an exact
  sum of zero is the positive zero). \<open>x - y\<close> is \<open>x + (-y)\<close>.
\<close>

fun add :: "number \<Rightarrow> number \<Rightarrow> number" where
  "add NaN y = NaN"
| "add x NaN = NaN"
| "add PosInf NegInf = NaN"
| "add NegInf PosInf = NaN"
| "add PosInf y = PosInf"
| "add x PosInf = PosInf"
| "add NegInf y = NegInf"
| "add x NegInf = NegInf"
| "add NegZero NegZero = NegZero"
| "add x y = round_double (fin x + fin y)"

fun neg :: "number \<Rightarrow> number" where
  "neg NaN = NaN"
| "neg PosInf = NegInf"
| "neg NegInf = PosInf"
| "neg NegZero = Num 0"
| "neg (Num r) = (if r = 0 then NegZero else Num (- r))"

definition sub :: "number \<Rightarrow> number \<Rightarrow> number" where
  "sub x y = add x (neg y)"

text \<open>\<open>x > y\<close>: false when either side is \<open>NaN\<close>; the two zeros compare equal.\<close>

fun gt :: "number \<Rightarrow> number \<Rightarrow> bool" where
  "gt NaN y = False"
| "gt x NaN = False"
| "gt PosInf PosInf = False"
| "gt PosInf y = True"
| "gt x PosInf = False"
| "gt NegInf y = False"
| "gt x NegInf = True"
| "gt x y = (fin y < fin x)"

text \<open>
  Truthiness of a number: both zeros and \<open>NaN\<close> are falsy. \<open>orNum x d\<close> is \<open>x || d\<close>.
\<close>

fun truthy :: "number \<Rightarrow> bool" where
  "truthy NaN = False"
| "truthy NegZero = False"
| "truthy (Num r) = (r \<noteq> 0)"
| "truthy _ = True"

definition orNum :: "number \<Rightarrow> number \<Rightarrow> number" where
  "orNum x d = (if truthy x then x else d)"

text \<open>\<open>s || d\<close> on strings: the empty string is falsy.\<close>

definition orStr :: "string \<Rightarrow> string \<Rightarrow> string" where
  "orStr s d = (if s \<noteq> [] then s else d)"

text \<open>
  Strings are sequences of bytes, a character outside ASCII being its UTF-8 bytes.
  \<open>String.prototype.trim\<close> removes white space and line terminators from both ends:
  the ASCII ones (\<open>isSpace\<close>), U+00A0 (\<open>ws2\<close>), and U+1680, U+2000 to U+200A, U+2028,
  U+2029, U+202F, U+205F, U+3000 and U+FEFF (\<open>ws3\<close>).
\<close>

definition isSpace :: "char \<Rightarrow> bool" where
  "isSpace c = (c \<in> set [CHR '' '', CHR 0x09, CHR 0x0A, CHR 0x0B, CHR 0x0C, CHR 0x0D])"

definition ws2 :: "char \<Rightarrow> char \<Rightarrow> bool" where
  "ws2 a b = (a = CHR 0xC2 \<and> b = CHR 0xA0)"

definition ws3 :: "char \<Rightarrow> char \<Rightarrow> char \<Rightarrow> bool" where
  "ws3 a b c =
     ((a = CHR 0xE1 \<and> b = CHR 0x9A \<and> c = CHR 0x80) \<or>
      (a = CHR 0xE2 \<and> b = CHR 0x80 \<and>
         c \<in> set [CHR 0x80, CHR 0x81, CHR 0x82, CHR 0x83, CHR 0x84, CHR 0x85, CHR 0x86,
                   CHR 0x87, CHR 0x88, CHR 0x89, CHR 0x8A, CHR 0xA8, CHR 0xA9, CHR 0xAF]) \<or>
      (a = CHR 0xE2 \<and> b = CHR 0x81 \<and> c = CHR 0x9F) \<or>
      (a = CHR 0xE3 \<and> b = CHR 0x80 \<and> c = CHR 0x80) \<or>
      (a = CHR 0xEF \<and> b = CHR 0xBB \<and> c = CHR 0xBF))"

text \<open>
  \<open>trimStart\<close> removes the leading white space; \<open>trimStartRev\<close> does the same on a
  reversed string, where the bytes of a character come last byte first.
\<close>

fun trimStart :: "string \<Rightarrow> string" where
  "trimStart (a # b # c # s) =
     (if isSpace a then trimStart (b # c # s)
      else if ws2 a b then trimStart (c # s)
      else if ws3 a b c then trimStart s
      else a # b # c # s)"
| "trimStart [a, b] =
     (if isSpace a then trimStart [b] else if ws2 a b then [] else [a, b])"
| "trimStart [a] = (if isSpace a then [] else [a])"
| "trimStart [] = []"

fun trimStartRev :: "string \<Rightarrow> string" where
  "trimStartRev (c # b # a # s) =
     (if isSpace c then trimStartRev (b # a # s)
      else if ws2 b c then trimStartRev (a # s)
      else if ws3 a b c then trimStartRev s
      else c # b # a # s)"
| "trimStartRev [b, a] =
     (if isSpace b then trimStartRev [a] else if ws2 a b then [] else [b, a])"
| "trimStartRev [a] = (if isSpace a then [] else [a])"
| "trimStartRev [] = []"

definition trim :: "string \<Rightarrow> string" where
  "trim s = rev (trimStartRev (rev (trimStart s)))"

text \<open>
  Reading a property of \<open>undefined\<close> raises a \<open>TypeError\<close>; it is the only exception
  the handlers can raise.
\<close>

datatype error = TypeError

type_synonym 'a result = "error + 'a"

text \<open>\<open>xs[i]\<close>: \<open>undefined\<close> (here \<open>None\<close>) outside the array.\<close>

definition nth_opt :: "'a list \<Rightarrow> nat \<Rightarrow> 'a option" where
  "nth_opt xs i = (if i < length xs then Some (xs ! i) else None)"

text \<open>\<open>Array.prototype.findIndex\<close>: the first index whose element satisfies \<open>P\<close>, or \<open>-1\<close>.\<close>

fun findIndex :: "('a \<Rightarrow> bool) \<Rightarrow> 'a list \<Rightarrow> int" where
  "findIndex P [] = - 1"
| "findIndex P (x # xs) =
     (if P x then 0 else (let r = findIndex P xs in if r < 0 then - 1 else r + 1))"

text \<open>
  \<open>xs.splice(i, 1)\<close> leaves \<open>removeAt i xs\<close> in the array and returns the element at
  \<open>i\<close>; \<open>xs.splice(t, 0, x)\<close> leaves \<open>insertAt t x xs\<close>.
\<close>

definition removeAt :: "nat \<Rightarrow> 'a list \<Rightarrow> 'a list" where
  "removeAt i xs = take i xs @ drop (Suc i) xs"

definition insertAt :: "nat \<Rightarrow> 'a \<Rightarrow> 'a list \<Rightarrow> 'a list" where
  "insertAt t x xs = take t xs @ x # drop t xs"

section \<open>The data model (types.ts)\<close>

datatype MonthStatus = NOT_STARTED | ACTIVE | COMPLETED

datatype TransactionType = EXPENSE | TRANSFER_IN | TRANSFER_OUT

text \<open>
  Field names are those of the interfaces; a name used by two interfaces, or by HOL,
  carries the interface as a prefix (\<open>tx_id\<close>, \<open>cat_id\<close>, \<open>month_year\<close>, \<open>month_note\<close>, \<open>by_year\<close>).
\<close>

record Transaction =
  tx_id :: string
  tx_date :: string
  tx_description :: string
  tx_amount :: number
  tx_type :: TransactionType
  fromCategory :: "string option"
  toCategory :: "string option"

record Category =
  cat_id :: string
  cat_name :: string
  icon :: string
  allocatedAmount :: number
  transactions :: "Transaction list"

record MonthBudget =
  monthIndex :: nat
  month_year :: int
  status :: MonthStatus
  totalBudget :: number
  month_note :: "string option"
  categories :: "Category list"

record BudgetYear =
  by_year :: int
  months :: "MonthBudget list"

section \<open>The state of the component\<close>

datatype view = YEARLY | DETAIL | REPORT

datatype direction = UP | DOWN

record expense_form =
  ef_amount :: string
  ef_note :: string
  ef_date :: string

record transfer_form =
  tf_amount :: string
  fromCategoryId :: string
  tf_note :: string

record topup_form =
  tu_amount :: string
  tu_note :: string

record setup_entry =
  se_name :: string
  se_amount :: string

record app_state =
  yearData :: BudgetYear
  activeView :: view
  selectedMonthIndex :: nat
  isExpenseModalOpen :: bool
  isTransferModalOpen :: bool
  isTopUpModalOpen :: bool
  isSetupModalOpen :: bool
  isEditTotalModalOpen :: bool
  isAddCategoryModalOpen :: bool
  selectedCategory :: "Category option"
  expenseForm :: expense_form
  transferForm :: transfer_form
  topUpForm :: topup_form
  editTotalValue :: string
  newCatName :: string
  newCatAmount :: string
  setupNote :: string
  setupCategories :: "setup_entry list"
  alerts :: "string list"

text \<open>
  The host, as the handlers see it during one call: \<open>randomId k\<close> is the identifier
  the \<open>k\<close>-th evaluation of \<open>Math.random().toString(36).substr(2, 9)\<close> gives, \<open>today\<close> is
  \<open>new Date().toISOString().split('T')[0]\<close>, \<open>confirm\<close> is the user's answer to
  \<open>window.confirm\<close>, \<open>numberToString\<close> is the text of a number inside a template.
  \<open>alert\<close> appends its message to \<open>alerts\<close>.
\<close>

record env =
  parseFloat :: "string \<Rightarrow> number"
  numberToString :: "number \<Rightarrow> string"
  today :: string
  confirm :: bool
  randomId :: "nat \<Rightarrow> string"

section \<open>The handlers\<close>

text \<open>
  \<open>const currentMonth = yearData.months[selectedMonthIndex]\<close>. Every render reads
  \<open>currentMonth.categories\<close> (for \<open>chartData\<close>), so the component raises before any
  handler exists when the index is outside the array; the handlers below start from
  that read.
\<close>

definition currentMonth :: "app_state \<Rightarrow> MonthBudget option" where
  "currentMonth s = nth_opt (months (yearData s)) (selectedMonthIndex s)"

definition computedSetupTotal :: "env \<Rightarrow> app_state \<Rightarrow> number" where
  "computedSetupTotal e s =
     foldl (\<lambda>acc curr. add acc (orNum (parseFloat e (se_amount curr)) (Num 0))) (Num 0)
       (setupCategories s)"

definition updateMonth :: "MonthBudget \<Rightarrow> app_state \<Rightarrow> app_state" where
  "updateMonth updatedMonth s =
     s\<lparr>yearData := (yearData s)\<lparr>months :=
         map (\<lambda>(i, m). if i = selectedMonthIndex s then updatedMonth else m)
           (enumerate 0 (months (yearData s)))\<rparr>\<rparr>"

definition handleCopyPlan :: "env \<Rightarrow> app_state \<Rightarrow> app_state result" where
  "handleCopyPlan e s =
     (case currentMonth s of
        None \<Rightarrow> Inl TypeError
      | Some cm \<Rightarrow>
          (let nextMonthIndex = selectedMonthIndex s + 1 in
           if nextMonthIndex > 11
           then Inr (s\<lparr>alerts := alerts s @ [''Plan copying across years is not yet implemented.'']\<rparr>)
           else
             (case nth_opt (months (yearData s)) nextMonthIndex of
                None \<Rightarrow> Inl TypeError
              | Some nextMonth \<Rightarrow>
                  if status nextMonth \<noteq> NOT_STARTED \<and> \<not> confirm e then Inr s
                  else
                    (let copiedCategories =
                           map (\<lambda>(k, c). c\<lparr>cat_id := randomId e k, transactions := []\<rparr>)
                             (enumerate 0 (categories cm));
                         newMonths = (months (yearData s))[nextMonthIndex :=
                           nextMonth\<lparr>status := ACTIVE, totalBudget := totalBudget cm,
                             month_note := month_note cm, categories := copiedCategories\<rparr>];
                         updated = (yearData s)\<lparr>months := newMonths\<rparr>
                     in Inr (s\<lparr>yearData := updated, selectedMonthIndex := nextMonthIndex,
                              activeView := DETAIL\<rparr>)))))"

definition finalizeSetup :: "env \<Rightarrow> app_state \<Rightarrow> app_state result" where
  "finalizeSetup e s =
     (case currentMonth s of
        None \<Rightarrow> Inl TypeError
      | Some cm \<Rightarrow>
          (let validCategories =
                 filter (\<lambda>sc. trim (se_name sc) \<noteq> [] \<and>
                               gt (orNum (parseFloat e (se_amount sc)) (Num 0)) (Num 0))
                   (setupCategories s)
           in if length validCategories = 0 then Inr s
              else
                (let newCategories =
                       map (\<lambda>(k, sc).
                              \<lparr>cat_id = randomId e k, cat_name = trim (se_name sc),
                               icon = trim (se_name sc),
                               allocatedAmount = orNum (parseFloat e (se_amount sc)) (Num 0),
                               transactions = []\<rparr>)
                         (enumerate 0 validCategories)
                 in Inr ((updateMonth
                            (cm\<lparr>status := ACTIVE, totalBudget := computedSetupTotal e s,
                               month_note := Some (trim (setupNote s)), categories := newCategories\<rparr>) s)
                          \<lparr>isSetupModalOpen := False, activeView := DETAIL\<rparr>))))"


definition deleteCategory :: "env \<Rightarrow> string \<Rightarrow> app_state \<Rightarrow> app_state result" where
  "deleteCategory e ident s =
     (case currentMonth s of
        None \<Rightarrow> Inl TypeError
      | Some cm \<Rightarrow>
          if \<not> confirm e then Inr s
          else
            (case find (\<lambda>c. cat_id c = ident) (categories cm) of
               None \<Rightarrow> Inr s
             | Some cat \<Rightarrow>
                 Inr (updateMonth
                        (cm\<lparr>categories := filter (\<lambda>c. cat_id c \<noteq> ident) (categories cm),
                           totalBudget := sub (totalBudget cm) (allocatedAmount cat)\<rparr>) s)))"

definition moveCategory :: "string \<Rightarrow> direction \<Rightarrow> app_state \<Rightarrow> app_state result" where
  "moveCategory ident dir s =
     (case currentMonth s of
        None \<Rightarrow> Inl TypeError
      | Some cm \<Rightarrow>
          (let index = findIndex (\<lambda>c. cat_id c = ident) (categories cm) in
           if index < 0 then Inr s
           else
             (let targetIndex = (if dir = UP then index - 1 else index + 1) in
              if targetIndex < 0 \<or> targetIndex \<ge> int (length (categories cm)) then Inr s
              else
                (let removed = categories cm ! nat index;
                     newCategories =
                       insertAt (nat targetIndex) removed (removeAt (nat index) (categories cm))
                 in Inr (updateMonth (cm\<lparr>categories := newCategories\<rparr>) s)))))"


definition handleTopUp :: "env \<Rightarrow> app_state \<Rightarrow> app_state result" where
  "handleTopUp e s =
     (case currentMonth s of
        None \<Rightarrow> Inl TypeError
      | Some cm \<Rightarrow>
          (case selectedCategory s of
             None \<Rightarrow> Inr s
           | Some sel \<Rightarrow>
               if tu_amount (topUpForm s) = [] then Inr s
               else
                 (let amount = parseFloat e (tu_amount (topUpForm s));
                      inTrans =
                        \<lparr>tx_id = randomId e 0, tx_date = today e,
                         tx_description =
                           orStr (trim (tu_note (topUpForm s)))
                             (''Add +$'' @ numberToString e amount),
                         tx_amount = amount, tx_type = TRANSFER_IN,
                         fromCategory = None, toCategory = None\<rparr>;
                      updatedCategories =
                        map (\<lambda>c. if cat_id c = cat_id sel
                                  then c\<lparr>allocatedAmount := add (allocatedAmount c) amount,
                                         transactions := transactions c @ [inTrans]\<rparr>
                                  else c)
                          (categories cm)
                  in Inr ((updateMonth
                             (cm\<lparr>categories := updatedCategories,
                                totalBudget := add (totalBudget cm) amount\<rparr>) s)
                           \<lparr>isTopUpModalOpen := False,
                            topUpForm := \<lparr>tu_amount = [], tu_note = []\<rparr>\<rparr>))))"

definition handleTransfer :: "env \<Rightarrow> app_state \<Rightarrow> app_state result" where
  "handleTransfer e s =
     (case currentMonth s of
        None \<Rightarrow> Inl TypeError
      | Some cm \<Rightarrow>
          (case selectedCategory s of
             None \<Rightarrow> Inr s
           | Some sel \<Rightarrow>
               if tf_amount (transferForm s) = [] \<or> fromCategoryId (transferForm s) = []
               then Inr s
               else
                 (let amount = parseFloat e (tf_amount (transferForm s)) in
                  case find (\<lambda>c. cat_id c = fromCategoryId (transferForm s)) (categories cm) of
                    None \<Rightarrow> Inr s
                  | Some fromCat \<Rightarrow>
                      (let note_t = trim (tf_note (transferForm s));
                           outTrans =
                             \<lparr>tx_id = randomId e 0, tx_date = today e,
                              tx_description =
                                (if note_t \<noteq> [] then ''Out: '' @ note_t
                                 else ''To '' @ cat_name sel),
                              tx_amount = amount, tx_type = TRANSFER_OUT,
                              fromCategory = None, toCategory = None\<rparr>;
                           inTrans =
                             \<lparr>tx_id = randomId e 1, tx_date = today e,
                              tx_description =
                                (if note_t \<noteq> [] then ''In: '' @ note_t
                                 else ''From '' @ cat_name fromCat),
                              tx_amount = amount, tx_type = TRANSFER_IN,
                              fromCategory = None, toCategory = None\<rparr>;
                           updatedCategories =
                             map (\<lambda>c. if cat_id c = cat_id fromCat
                                       then c\<lparr>allocatedAmount := sub (allocatedAmount c) amount,
                                              transactions := transactions c @ [outTrans]\<rparr>
                                       else if cat_id c = cat_id sel
                                       then c\<lparr>allocatedAmount := add (allocatedAmount c) amount,
                                              transactions := transactions c @ [inTrans]\<rparr>
                                       else c)
                               (categories cm)
                       in Inr ((updateMonth (cm\<lparr>categories := updatedCategories\<rparr>) s)
                                \<lparr>isTransferModalOpen := False,
                                 transferForm :=
                                   \<lparr>tf_amount = [], fromCategoryId = [], tf_note = []\<rparr>\<rparr>)))))"



section \<open>Observations used to state the properties\<close>

text \<open>The month the component shows after a handler has run, if it did not raise.\<close>

definition resultingMonth :: "app_state result \<Rightarrow> MonthBudget option" where
  "resultingMonth r = (case r of Inl _ \<Rightarrow> None | Inr s' \<Rightarrow> currentMonth s')"

text \<open>The sum of the allocations of a category sequence, and its number of transactions.\<close>

fun sumAllocated :: "Category list \<Rightarrow> number" where
  "sumAllocated [] = Num 0"
| "sumAllocated (c # cs) = add (allocatedAmount c) (sumAllocated cs)"

definition transactionCount :: "Category list \<Rightarrow> nat" where
  "transactionCount cs = sum_list (map (\<lambda>c. length (transactions c)) cs)"



section \<open>A concrete ledger\<close>

text \<open>
  The scenario of the specification: January holds the envelopes Groceries (400) and
  Rent (1200), the other months are as \<open>loadLocalYearData\<close> creates them. The host
  functions are given on the strings and numbers that occur in the scenario only:
  \<open>parseFloat_sample\<close> and \<open>numberToString_sample\<close> agree with the built-ins there
  (the value of a decimal text being the double nearest to it).
\<close>

definition parseFloat_sample :: "string \<Rightarrow> number" where
  "parseFloat_sample x =
     (if x = ''1200'' then Num 1200 else if x = ''400'' then Num 400
      else if x = ''300'' then Num 300 else if x = ''100'' then Num 100
      else if x = ''50'' then Num 50 else if x = ''20'' then Num 20
      else if x = ''500'' then Num 500 else if x = ''-5'' then Num (- 5)
      else if x = ''0'' then Num 0
      else if x = ''0.2'' then round_double (1 / 5)
      else if x = ''100.1'' then round_double (1001 / 10)
      else NaN)"

definition numberToString_sample :: "number \<Rightarrow> string" where
  "numberToString_sample n = (if n = Num 20 then ''20'' else ''NaN'')"

definition demo_env :: env where
  "demo_env =
     \<lparr>parseFloat = parseFloat_sample, numberToString = numberToString_sample,
      today = ''2026-01-15'', confirm = True,
      randomId = (\<lambda>k. if k = 0 then ''q1w2e3r4t'' else if k = 1 then ''a5s6d7f8g''
                        else ''z9x8c7v6b'')\<rparr>"

definition demo_groceries :: Category where
  "demo_groceries =
     \<lparr>cat_id = ''g7h2k9d1s'', cat_name = ''Groceries'', icon = ''Groceries'',
      allocatedAmount = Num 400, transactions = []\<rparr>"

definition demo_rent :: Category where
  "demo_rent =
     \<lparr>cat_id = ''r4t8w2q6z'', cat_name = ''Rent'', icon = ''Rent'',
      allocatedAmount = Num 1200, transactions = []\<rparr>"

definition demo_january :: MonthBudget where
  "demo_january =
     \<lparr>monthIndex = 0, month_year = 2026, status = ACTIVE, totalBudget = Num 1600,
      month_note = Some ''Salary'', categories = [demo_groceries, demo_rent]\<rparr>"

definition emptyMonth :: "int \<Rightarrow> nat \<Rightarrow> MonthBudget" where
  "emptyMonth y i =
     \<lparr>monthIndex = i, month_year = y, status = NOT_STARTED, totalBudget = Num 0,
      month_note = None, categories = []\<rparr>"

definition demo_year :: BudgetYear where
  "demo_year =
     \<lparr>by_year = 2026,
      months = demo_january # map (emptyMonth 2026) [1, 2, 3, 4, 5, 6, 7, 8, 9, 10, 11]\<rparr>"

definition demo_state :: app_state where
  "demo_state =
     \<lparr>yearData = demo_year, activeView = DETAIL, selectedMonthIndex = 0,
      isExpenseModalOpen = False, isTransferModalOpen = False, isTopUpModalOpen = False,
      isSetupModalOpen = False, isEditTotalModalOpen = False, isAddCategoryModalOpen = False,
      selectedCategory = Some demo_groceries,
      expenseForm = \<lparr>ef_amount = ''50'', ef_note = ''Milk'', ef_date = ''2026-01-15''\<rparr>,
      transferForm = \<lparr>tf_amount = ''100'', fromCategoryId = ''r4t8w2q6z'', tf_note = []\<rparr>,
      topUpForm = \<lparr>tu_amount = ''20'', tu_note = []\<rparr>,
      editTotalValue = ''500'', newCatName = ''Fun'', newCatAmount = ''100'',
      setupNote = ''Salary'',
      setupCategories = [\<lparr>se_name = ''Rent'', se_amount = ''1200''\<rparr>,
                         \<lparr>se_name = [], se_amount = ''300''\<rparr>],
      alerts = []\<rparr>"

text \<open>
  The same ledger with other amounts: \<open>demo_with g r t amt\<close> has the allocations \<open>g\<close>
  of Groceries and \<open>r\<close> of Rent, the total budget \<open>t\<close>, and the text \<open>amt\<close> in the
  amount fields of the top-up and transfer forms.
\<close>

definition demo_with :: "number \<Rightarrow> number \<Rightarrow> number \<Rightarrow> string \<Rightarrow> app_state" where
  "demo_with g r t amt =
     demo_state
       \<lparr>yearData := demo_year\<lparr>months :=
          (months demo_year)[0 := demo_january\<lparr>totalBudget := t,
             categories := [demo_groceries\<lparr>allocatedAmount := g\<rparr>,
                            demo_rent\<lparr>allocatedAmount := r\<rparr>]\<rparr>]\<rparr>,
        transferForm := \<lparr>tf_amount = amt, fromCategoryId = ''r4t8w2q6z'', tf_note = []\<rparr>,
        topUpForm := \<lparr>tu_amount = amt, tu_note = []\<rparr>\<rparr>"

section \<open>Basic facts\<close>

lemmas demo_defs = demo_state_def demo_year_def demo_january_def demo_groceries_def
  demo_rent_def demo_env_def parseFloat_sample_def numberToString_sample_def emptyMonth_def

lemmas trim_defs = trim_def isSpace_def ws2_def ws3_def

lemma pow2_nonpos: "e \<le> 0 \<Longrightarrow> pow2 e = 1 / 2 ^ nat (- e)"
  by (cases "e = 0") (simp_all add: pow2_def)

lemma roundHalfEven_of_int: "roundHalfEven (of_int n) = n"
  by (simp add: roundHalfEven_def)

lemma ilog2_of_int:
  assumes "0 < k"
  shows "ilog2 (of_int k) = bitlen k - 1"
proof -
  have b1: "bitlen 1 = 1" by (simp add: bitlen_alt_def)
  have ge: "1 \<le> bitlen k" using assms by (auto simp: bitlen_alt_def)
  have "2 ^ nat (bitlen k - 1) \<le> k" using bitlen_bounds [OF assms] by simp
  then have "(of_int (2 ^ nat (bitlen k - 1)) :: rat) \<le> of_int k"
    by (simp only: of_int_le_iff)
  then have "pow2 (bitlen k - 1) \<le> of_int k"
    using ge by (simp add: pow2_def)
  then show ?thesis
    by (simp add: ilog2_def b1)
qed

lemma round_double_eq:
  assumes "r \<noteq> 0" and "\<bar>r\<bar> = a" and "max (ilog2 a) (- 1022) = e" and "pow2 (e - 52) = q"
    and "roundHalfEven (a / q) = n" and "e < 1023" and "n \<noteq> 0"
  shows "round_double r = Num (if 0 < r then of_int n * q else - (of_int n * q))"
  using assms by (simp add: round_double_def Let_def)

lemma round_double_of_int:
  assumes "\<bar>m\<bar> < 2 ^ 53"
  shows "round_double (of_int m) = Num (of_int m)"
proof (cases "m = 0")
  case True
  then show ?thesis by (simp add: round_double_def)
next
  case False
  define k where "k = \<bar>m\<bar>"
  have k: "0 < k" "k < 2 ^ 53" using False assms by (simp_all add: k_def)
  define d where "d = bitlen k - 1"
  have d0: "0 \<le> d" using k(1) by (auto simp: d_def bitlen_alt_def)
  have "(2::int) ^ nat d \<le> k" using bitlen_bounds [OF k(1)] by (simp add: d_def)
  then have lt: "(2::int) ^ nat d < 2 ^ 53" using k(2) by linarith
  have "nat d < 53" by (rule power_less_imp_less_exp [OF _ lt]) simp
  then have d52: "d \<le> 52" by linarith
  define j where "j = nat (52 - d)"
  have abs: "\<bar>(of_int m :: rat)\<bar> = of_int k" by (simp add: k_def)
  have il: "ilog2 (of_int k) = d"
    unfolding d_def by (rule ilog2_of_int [OF k(1)])
  have e: "max (ilog2 (of_int k)) (- 1022) = d" using d0 il by simp
  have q: "pow2 (d - 52) = 1 / 2 ^ j"
    using d52 by (simp add: pow2_nonpos j_def)
  have dv: "(of_int k :: rat) / (1 / 2 ^ j) = of_int (k * 2 ^ j)" by simp
  have m: "roundHalfEven ((of_int k :: rat) / (1 / 2 ^ j)) = k * 2 ^ j"
    unfolding dv by (rule roundHalfEven_of_int)
  have pos: "k * 2 ^ j \<noteq> 0" using k(1) by simp
  have bk: "(of_int (k * 2 ^ j) :: rat) * (1 / 2 ^ j) = of_int k" by simp
  have sgn: "(if 0 < (of_int m :: rat) then (of_int k :: rat) else - of_int k) = of_int m"
    by (simp add: k_def)
  have nz: "(of_int m :: rat) \<noteq> 0" using False by simp
  have "round_double (of_int m) =
        Num (if 0 < (of_int m :: rat) then of_int (k * 2 ^ j) * (1 / 2 ^ j)
             else - (of_int (k * 2 ^ j) * (1 / 2 ^ j)))"
    using d52 by (intro round_double_eq [OF nz abs e q m _ pos]) simp
  then show ?thesis unfolding bk sgn .
qed

lemma round_double_numeral [simp]:
  "(numeral n :: int) < 2 ^ 53 \<Longrightarrow> round_double (numeral n) = Num (numeral n)"
  "(numeral n :: int) < 2 ^ 53 \<Longrightarrow> round_double (- numeral n) = Num (- numeral n)"
  using round_double_of_int [of "numeral n"] round_double_of_int [of "- numeral n"]
  by simp_all

lemma round_double_one [simp]: "round_double 1 = Num 1" "round_double (- 1) = Num (- 1)"
  using round_double_of_int [of 1] round_double_of_int [of "- 1"] by simp_all

lemma round_double_zero [simp]: "round_double 0 = Num 0"
  by (simp add: round_double_def)

lemma add_whole:
  "\<bar>m + n\<bar> < 2 ^ 53 \<Longrightarrow> add (Num (of_int m)) (Num (of_int n)) = Num (of_int (m + n))"
  using round_double_of_int [of "m + n"] by simp

lemma sub_whole:
  "\<bar>m - n\<bar> < 2 ^ 53 \<Longrightarrow> sub (Num (of_int m)) (Num (of_int n)) = Num (of_int (m - n))"
  using round_double_of_int [of "m - n"] round_double_of_int [of m]
  by (auto simp: sub_def)


lemma map_if_key_update:
  assumes "distinct (map f xs)" "j < length xs"
  shows "map (\<lambda>c. if f c = f (xs ! j) then g c else c) xs = xs[j := g (xs ! j)]"
proof (rule nth_equalityI)
  show "length (map (\<lambda>c. if f c = f (xs ! j) then g c else c) xs) = length (xs[j := g (xs ! j)])"
    by simp
next
  fix i assume "i < length (map (\<lambda>c. if f c = f (xs ! j) then g c else c) xs)"
  then have i: "i < length xs" by simp
  have "f (xs ! i) = f (xs ! j) \<longleftrightarrow> i = j"
    using assms i nth_eq_iff_index_eq [of "map f xs" i j] by simp
  then show "map (\<lambda>c. if f c = f (xs ! j) then g c else c) xs ! i = xs[j := g (xs ! j)] ! i"
    using i by (simp add: nth_list_update)
qed

lemma map_if_two_keys_update:
  assumes "distinct (map f xs)" "i < length xs" "j < length xs" "i \<noteq> j"
  shows "map (\<lambda>c. if f c = f (xs ! i) then g c else if f c = f (xs ! j) then h c else c) xs
         = xs[i := g (xs ! i), j := h (xs ! j)]"
proof (rule nth_equalityI)
  show "length (map (\<lambda>c. if f c = f (xs ! i) then g c else if f c = f (xs ! j) then h c else c) xs)
        = length (xs[i := g (xs ! i), j := h (xs ! j)])"
    by simp
next
  fix k assume "k < length (map (\<lambda>c. if f c = f (xs ! i) then g c else if f c = f (xs ! j) then h c else c) xs)"
  then have k: "k < length xs" by simp
  have "f (xs ! k) = f (xs ! i) \<longleftrightarrow> k = i" "f (xs ! k) = f (xs ! j) \<longleftrightarrow> k = j"
    using assms k nth_eq_iff_index_eq [of "map f xs" k i]
      nth_eq_iff_index_eq [of "map f xs" k j] by simp_all
  then show "map (\<lambda>c. if f c = f (xs ! i) then g c else if f c = f (xs ! j) then h c else c) xs ! k
             = xs[i := g (xs ! i), j := h (xs ! j)] ! k"
    using k assms by (auto simp: nth_list_update)
qed

lemma find_key_distinct:
  assumes "distinct (map f xs)" "j < length xs"
  shows "find (\<lambda>c. f c = f (xs ! j)) xs = Some (xs ! j)"
proof -
  have "\<And>i. i < j \<Longrightarrow> f (xs ! i) \<noteq> f (xs ! j)"
    using assms nth_eq_iff_index_eq [of "map f xs" _ j] by fastforce
  then show ?thesis
    using assms by (auto simp: find_Some_iff intro!: exI [of _ j])
qed

lemma find_key_None: "k \<notin> set (map f xs) \<Longrightarrow> find (\<lambda>c. f c = k) xs = None"
  by (auto simp: find_None_iff)

lemma filter_key_distinct:
  assumes "distinct (map f xs)" "j < length xs"
  shows "filter (\<lambda>c. f c \<noteq> f (xs ! j)) xs = removeAt j xs"
  using assms
proof (induction xs arbitrary: j)
  case Nil
  then show ?case by simp
next
  case (Cons x xs)
  show ?case
  proof (cases j)
    case 0
    have "f x \<notin> f ` set xs" using Cons.prems by simp
    then have "\<forall>c\<in>set xs. f c \<noteq> f x" by (metis imageI)
    then have "filter (\<lambda>c. f c \<noteq> f x) xs = xs"
      by (simp add: filter_id_conv)
    then show ?thesis using 0 by (simp add: removeAt_def)
  next
    case (Suc k)
    then have "f x \<noteq> f (xs ! k)" using Cons.prems by auto
    then show ?thesis using Suc Cons.IH [of k] Cons.prems by (simp add: removeAt_def)
  qed
qed

lemma findIndex_lt: "findIndex P xs < int (length xs)"
  by (induction xs) (auto simp: Let_def)

lemma findIndex_hd: "xs \<noteq> [] \<Longrightarrow> P (hd xs) \<Longrightarrow> findIndex P xs = 0"
  by (cases xs) auto

lemma findIndex_key_distinct:
  assumes "distinct (map f xs)" "j < length xs"
  shows "findIndex (\<lambda>c. f c = f (xs ! j)) xs = int j"
  using assms
proof (induction xs arbitrary: j)
  case Nil
  then show ?case by simp
next
  case (Cons x xs)
  show ?case
  proof (cases j)
    case 0
    then show ?thesis by simp
  next
    case (Suc k)
    then have "f x \<noteq> f (xs ! k)" using Cons.prems by auto
    then show ?thesis using Suc Cons.IH [of k] Cons.prems by (simp add: Let_def)
  qed
qed

lemma mset_move:
  assumes "i < length xs" "t < length xs"
  shows "mset (insertAt t (xs ! i) (removeAt i xs)) = mset xs"
proof -
  have "mset (insertAt t x ys) = add_mset x (mset ys)" for x and ys :: "'a list"
  proof -
    have "mset (take t ys @ x # drop t ys) = add_mset x (mset (take t ys @ drop t ys))"
      by (simp del: append_take_drop_id)
    then show ?thesis by (simp add: insertAt_def)
  qed
  moreover have "add_mset (xs ! i) (mset (removeAt i xs)) = mset xs"
  proof -
    have "xs = take i xs @ xs ! i # drop (Suc i) xs"
      using assms(1) by (simp add: id_take_nth_drop)
    then have "mset xs = mset (take i xs @ xs ! i # drop (Suc i) xs)" by simp
    then show ?thesis by (simp add: removeAt_def)
  qed
  ultimately show ?thesis by simp
qed

lemma map_enumerate_update:
  "map (\<lambda>(i, x). if i = k then m else x) (enumerate 0 xs) = xs[k := m]"
  by (auto intro!: nth_equalityI simp: nth_enumerate_eq nth_list_update)

lemma updateMonth_eq:
  "updateMonth m s =
     s\<lparr>yearData := (yearData s)\<lparr>months := (months (yearData s))[selectedMonthIndex s := m]\<rparr>\<rparr>"
  by (simp add: updateMonth_def map_enumerate_update)

lemma currentMonth_in_range:
  "currentMonth s = Some cm \<Longrightarrow> selectedMonthIndex s < length (months (yearData s))"
  by (simp add: currentMonth_def nth_opt_def split: if_splits)

lemma currentMonth_updateMonth:
  "currentMonth s = Some cm \<Longrightarrow> currentMonth (updateMonth m s) = Some m"
  by (simp add: updateMonth_eq currentMonth_def nth_opt_def split: if_splits)

lemma demo_currentMonth: "currentMonth demo_state = Some demo_january"
  by (simp add: currentMonth_def nth_opt_def demo_state_def demo_year_def)

lemma demo_distinct: "distinct (map cat_id (categories demo_january))"
  by (simp add: demo_january_def demo_groceries_def demo_rent_def)

lemma double_samples:
  "round_double (1 / 10) = Num (3602879701896397 / 36028797018963968)"
  "round_double (1 / 5) = Num (3602879701896397 / 18014398509481984)"
  "round_double (12001 / 10) = Num (2639047808987955 / 2199023255552)"
  "round_double (1001 / 10) = Num (3521955646092083 / 35184372088832)"
  "round_double (4001 / 10) = Num (3519316818185421 / 8796093022208)"
  "round_double (6001 / 5) = Num (5278535422627021 / 4398046511104)"
  "round_double (16003 / 10) = Num (7038193831719731 / 4398046511104)"
  by code_simp+

lemma double_sums:
  "add (Num (3602879701896397 / 36028797018963968)) (Num (3602879701896397 / 18014398509481984))
     = Num (1351079888211149 / 4503599627370496)"
  "add (Num (2639047808987955 / 2199023255552)) (Num (3602879701896397 / 18014398509481984))
     = Num (5278975227278131 / 4398046511104)"
  "add (Num (5278535422627021 / 4398046511104)) (Num (3521955646092083 / 35184372088832))
     = Num (5718779878388531 / 4398046511104)"
  "add (Num (5718779878388531 / 4398046511104)) (Num 300)
     = Num (7038193831719731 / 4398046511104)"
  "add (Num (5278535422627021 / 4398046511104)) (Num (3519316818185421 / 8796093022208))
     = Num (1759548457929933 / 1099511627776)"
  "add (Num (5278535422627021 / 4398046511104)) (Num 0)
     = Num (5278535422627021 / 4398046511104)"
  "add (Num (3519316818185421 / 8796093022208)) (Num (5278535422627021 / 4398046511104))
     = Num (1759548457929933 / 1099511627776)"
  "add (Num 300) (Num (5278535422627021 / 4398046511104))
     = Num (6597949375958221 / 4398046511104)"
  by code_simp+

lemma double_sums_more:
  "add (Num 300) (Num (5718779878388531 / 4398046511104))
     = Num (7038193831719731 / 4398046511104)"
  by code_simp

lemma double_differences:
  "sub (Num (3519316818185421 / 8796093022208)) (Num (3521955646092083 / 35184372088832))
     = Num 300"
  "sub (Num (1759548457929933 / 1099511627776)) (Num (3521955646092083 / 35184372088832))
     = Num (3298974687979111 / 2199023255552)"
  "sub (Num (7038193831719731 / 4398046511104)) (Num (3602879701896397 / 36028797018963968))
     = Num (7037754027068621 / 4398046511104)"
  by code_simp+

lemma demo_with_currentMonth:
  "currentMonth (demo_with g r t amt) =
     Some (demo_january\<lparr>totalBudget := t,
             categories := [demo_groceries\<lparr>allocatedAmount := g\<rparr>,
                            demo_rent\<lparr>allocatedAmount := r\<rparr>]\<rparr>)"
  by (simp add: demo_with_def currentMonth_def nth_opt_def demo_state_def demo_year_def)

section \<open>Top-up\<close>

text \<open>
  C6, as the handler has it. A top-up of the selected category, whose identifier occurs
  at position \<open>j\<close> of a month with pairwise distinct identifiers, sets the allocation of
  that category to the double sum of the allocation and the parsed amount \<open>a\<close>, and the
  total budget of the month to the double sum of the total budget and \<open>a\<close>: each is the
  exact sum rounded to the nearest double. Where the exact sums are doubles, as for
  whole numbers below \<open>2 ^ 53\<close>, both grow by exactly \<open>a\<close>. The top-up appends one
  \<open>TRANSFER_IN\<close> transaction of the amount \<open>a\<close> to the category and leaves every other
  category as it is.
\<close>

theorem handleTopUp_effect:
  assumes cur: "currentMonth s = Some cm"
    and sel: "selectedCategory s = Some sel"
    and amt: "tu_amount (topUpForm s) \<noteq> []"
    and dist: "distinct (map cat_id (categories cm))"
    and j: "j < length (categories cm)"
    and jsel: "cat_id (categories cm ! j) = cat_id sel"
  shows "\<exists>cm' t.
           resultingMonth (handleTopUp e s) = Some cm' \<and>
           tx_type t = TRANSFER_IN \<and>
           tx_amount t = parseFloat e (tu_amount (topUpForm s)) \<and>
           categories cm' =
             (categories cm)[j := (categories cm ! j)
               \<lparr>allocatedAmount :=
                  add (allocatedAmount (categories cm ! j)) (parseFloat e (tu_amount (topUpForm s))),
                transactions := transactions (categories cm ! j) @ [t]\<rparr>] \<and>
           totalBudget cm' = add (totalBudget cm) (parseFloat e (tu_amount (topUpForm s))) \<and>
           (\<forall>m b n. allocatedAmount (categories cm ! j) = Num (of_int m) \<and>
              totalBudget cm = Num (of_int b) \<and>
              parseFloat e (tu_amount (topUpForm s)) = Num (of_int n) \<and>
              \<bar>m + n\<bar> < 2 ^ 53 \<and> \<bar>b + n\<bar> < 2 ^ 53 \<longrightarrow>
              allocatedAmount (categories cm' ! j) = Num (of_int (m + n)) \<and>
              totalBudget cm' = Num (of_int (b + n)))"
proof -
  let ?a = "parseFloat e (tu_amount (topUpForm s))"
  let ?t = "\<lparr>tx_id = randomId e 0, tx_date = today e,
              tx_description = orStr (trim (tu_note (topUpForm s))) (''Add +$'' @ numberToString e ?a),
              tx_amount = ?a, tx_type = TRANSFER_IN, fromCategory = None, toCategory = None\<rparr>"
  let ?g = "\<lambda>c. c\<lparr>allocatedAmount := add (allocatedAmount c) ?a,
                      transactions := transactions c @ [?t]\<rparr>"
  let ?cs' = "(categories cm)[j := ?g (categories cm ! j)]"
  let ?cm' = "cm\<lparr>categories := ?cs', totalBudget := add (totalBudget cm) ?a\<rparr>"
  have upd: "map (\<lambda>c. if cat_id c = cat_id sel then ?g c else c) (categories cm) = ?cs'"
    using map_if_key_update [OF dist j, of ?g] jsel by simp
  have res: "resultingMonth (handleTopUp e s) = Some ?cm'"
    unfolding upd [symmetric] using cur sel amt
    by (simp add: handleTopUp_def resultingMonth_def Let_def updateMonth_eq currentMonth_def
        nth_opt_def split: if_splits)
  have ty: "tx_type ?t = TRANSFER_IN" and am: "tx_amount ?t = ?a" by simp_all
  have cs: "categories ?cm' = ?cs'" and tot: "totalBudget ?cm' = add (totalBudget cm) ?a"
    by simp_all
  have whole: "\<forall>m b n. allocatedAmount (categories cm ! j) = Num (of_int m) \<and>
              totalBudget cm = Num (of_int b) \<and> ?a = Num (of_int n) \<and>
              \<bar>m + n\<bar> < 2 ^ 53 \<and> \<bar>b + n\<bar> < 2 ^ 53 \<longrightarrow>
              allocatedAmount (categories ?cm' ! j) = Num (of_int (m + n)) \<and>
              totalBudget ?cm' = Num (of_int (b + n))"
  proof (intro allI impI)
    fix m b n
    assume h: "allocatedAmount (categories cm ! j) = Num (of_int m) \<and>
              totalBudget cm = Num (of_int b) \<and> ?a = Num (of_int n) \<and>
              \<bar>m + n\<bar> < 2 ^ 53 \<and> \<bar>b + n\<bar> < 2 ^ 53"
    have "add (allocatedAmount (categories cm ! j)) ?a = Num (of_int (m + n))"
      using h add_whole [of m n] by simp
    moreover have "add (totalBudget cm) ?a = Num (of_int (b + n))"
      using h add_whole [of b n] by simp
    ultimately show "allocatedAmount (categories ?cm' ! j) = Num (of_int (m + n)) \<and>
              totalBudget ?cm' = Num (of_int (b + n))"
      using j by simp
  qed
  show ?thesis
    by (intro exI [of _ ?cm'] exI [of _ ?t] conjI res ty am cs tot whole)
qed


theorem handleTopUp_effect_witness:
  "currentMonth demo_state = Some demo_january \<and>
   selectedCategory demo_state = Some demo_groceries \<and>
   tu_amount (topUpForm demo_state) \<noteq> [] \<and>
   distinct (map cat_id (categories demo_january)) \<and>
   0 < length (categories demo_january) \<and>
   cat_id (categories demo_january ! 0) = cat_id demo_groceries \<and>
   map_option (\<lambda>m. map allocatedAmount (categories m))
     (resultingMonth (handleTopUp demo_env demo_state)) = Some [Num 420, Num 1200] \<and>
   map_option totalBudget (resultingMonth (handleTopUp demo_env demo_state)) = Some (Num 1620)"
proof -
  have h1: "currentMonth demo_state = Some demo_january"
    by (simp add: currentMonth_def nth_opt_def demo_state_def demo_year_def)
  have h2: "selectedCategory demo_state = Some demo_groceries"
    by (simp add: demo_state_def)
  have h3: "tu_amount (topUpForm demo_state) \<noteq> []"
    by (simp add: demo_state_def)
  have h4: "distinct (map cat_id (categories demo_january))"
    by (simp add: demo_january_def demo_groceries_def demo_rent_def)
  have h5: "0 < length (categories demo_january)"
    by (simp add: demo_january_def)
  have h6: "cat_id (categories demo_january ! 0) = cat_id demo_groceries"
    by (simp add: demo_january_def)
  obtain cm' t where r: "resultingMonth (handleTopUp demo_env demo_state) = Some cm'"
    and c: "categories cm' =
             (categories demo_january)[0 := (categories demo_january ! 0)
               \<lparr>allocatedAmount :=
                  add (allocatedAmount (categories demo_january ! 0))
                    (parseFloat demo_env (tu_amount (topUpForm demo_state))),
                transactions := transactions (categories demo_january ! 0) @ [t]\<rparr>]"
    and b: "totalBudget cm' =
             add (totalBudget demo_january) (parseFloat demo_env (tu_amount (topUpForm demo_state)))"
    and w: "\<forall>m b n. allocatedAmount (categories demo_january ! 0) = Num (of_int m) \<and>
              totalBudget demo_january = Num (of_int b) \<and>
              parseFloat demo_env (tu_amount (topUpForm demo_state)) = Num (of_int n) \<and>
              \<bar>m + n\<bar> < 2 ^ 53 \<and> \<bar>b + n\<bar> < 2 ^ 53 \<longrightarrow>
              allocatedAmount (categories cm' ! 0) = Num (of_int (m + n)) \<and>
              totalBudget cm' = Num (of_int (b + n))"
    using handleTopUp_effect [OF h1 h2 h3 h4 h5 h6, of demo_env] by blast
  have "allocatedAmount (categories demo_january ! 0) = Num (of_int 400) \<and>
        totalBudget demo_january = Num (of_int 1600) \<and>
        parseFloat demo_env (tu_amount (topUpForm demo_state)) = Num (of_int 20) \<and>
        \<bar>400 + 20\<bar> < (2::int) ^ 53 \<and> \<bar>1600 + 20\<bar> < (2::int) ^ 53"
    by (simp add: demo_defs)
  with w have w': "allocatedAmount (categories cm' ! 0) = Num (of_int (400 + 20)) \<and>
              totalBudget cm' = Num (of_int (1600 + 20))"
    by blast
  have "map allocatedAmount (categories cm') = [Num 420, Num 1200]"
    using w' by (simp add: c demo_defs del: add.simps)
  moreover have "totalBudget cm' = Num 1620"
    using w' by simp
  ultimately show ?thesis using h1 h2 h3 h4 h5 h6 r by simp
qed


text \<open>
  C6 as stated has the allocation and the total budget grow by exactly the amount, the
  same for both. With the allocation 0.1, the total budget 1200.1 and the amount 0.2
  (each the double nearest to the decimal) the handler stores the doubles
  0.30000000000000004 and 1200.3: neither increase is the amount, and the two differ.
\<close>

theorem handleTopUp_rounds:
  "round_double (1 / 10) = Num (3602879701896397 / 36028797018963968) \<and>
   round_double (12001 / 10) = Num (2639047808987955 / 2199023255552) \<and>
   parseFloat demo_env ''0.2'' = Num (3602879701896397 / 18014398509481984) \<and>
   map_option (\<lambda>m. map allocatedAmount (categories m))
     (resultingMonth (handleTopUp demo_env
        (demo_with (round_double (1 / 10)) (Num 1200) (round_double (12001 / 10)) ''0.2'')))
     = Some [Num (1351079888211149 / 4503599627370496), Num 1200] \<and>
   map_option totalBudget
     (resultingMonth (handleTopUp demo_env
        (demo_with (round_double (1 / 10)) (Num 1200) (round_double (12001 / 10)) ''0.2'')))
     = Some (Num (5278975227278131 / 4398046511104)) \<and>
   (1351079888211149 / 4503599627370496 - 3602879701896397 / 36028797018963968 :: rat)
     \<noteq> 3602879701896397 / 18014398509481984 \<and>
   (5278975227278131 / 4398046511104 - 2639047808987955 / 2199023255552 :: rat)
     \<noteq> 3602879701896397 / 18014398509481984 \<and>
   (1351079888211149 / 4503599627370496 - 3602879701896397 / 36028797018963968 :: rat)
     \<noteq> 5278975227278131 / 4398046511104 - 2639047808987955 / 2199023255552"
  by (simp add: resultingMonth_def handleTopUp_def demo_with_currentMonth updateMonth_eq
      Let_def demo_with_def currentMonth_def nth_opt_def demo_defs double_samples double_sums
      del: add.simps)

section \<open>Transfer\<close>

lemma transactionCount_update:
  "i < length cs \<Longrightarrow> length (transactions x) = length (transactions (cs ! i)) + n \<Longrightarrow>
   transactionCount (cs[i := x]) = transactionCount cs + n"
proof (induction cs arbitrary: i)
  case Nil
  then show ?case by simp
next
  case (Cons c cs)
  show ?case
  proof (cases i)
    case 0
    then show ?thesis using Cons.prems by (simp add: transactionCount_def)
  next
    case (Suc k)
    then show ?thesis using Cons.prems Cons.IH [of k]
      by (simp add: transactionCount_def)
  qed
qed

lemma handleTransfer_run:
  assumes cur: "currentMonth s = Some cm"
    and sel: "selectedCategory s = Some sel"
    and amt: "tf_amount (transferForm s) \<noteq> []"
    and src: "fromCategoryId (transferForm s) \<noteq> []"
    and fnd: "find (\<lambda>c. cat_id c = fromCategoryId (transferForm s)) (categories cm) = Some fromCat"
    and out: "tout =
      \<lparr>tx_id = randomId e 0, tx_date = today e,
       tx_description =
         (if trim (tf_note (transferForm s)) \<noteq> [] then ''Out: '' @ trim (tf_note (transferForm s))
          else ''To '' @ cat_name sel),
       tx_amount = parseFloat e (tf_amount (transferForm s)), tx_type = TRANSFER_OUT,
       fromCategory = None, toCategory = None\<rparr>"
    and inn: "tin =
      \<lparr>tx_id = randomId e 1, tx_date = today e,
       tx_description =
         (if trim (tf_note (transferForm s)) \<noteq> [] then ''In: '' @ trim (tf_note (transferForm s))
          else ''From '' @ cat_name fromCat),
       tx_amount = parseFloat e (tf_amount (transferForm s)), tx_type = TRANSFER_IN,
       fromCategory = None, toCategory = None\<rparr>"
    and cs': "cs' =
      map (\<lambda>c. if cat_id c = cat_id fromCat
                then c\<lparr>allocatedAmount :=
                         sub (allocatedAmount c) (parseFloat e (tf_amount (transferForm s))),
                       transactions := transactions c @ [tout]\<rparr>
                else if cat_id c = cat_id sel
                then c\<lparr>allocatedAmount :=
                         add (allocatedAmount c) (parseFloat e (tf_amount (transferForm s))),
                       transactions := transactions c @ [tin]\<rparr>
                else c) (categories cm)"
  shows "handleTransfer e s =
           Inr (s\<lparr>yearData := (yearData s)\<lparr>months :=
                    (months (yearData s))[selectedMonthIndex s := cm\<lparr>categories := cs'\<rparr>]\<rparr>,
                  isTransferModalOpen := False,
                  transferForm := \<lparr>tf_amount = [], fromCategoryId = [], tf_note = []\<rparr>\<rparr>)"
  unfolding cs' out inn
  using cur sel amt src fnd
  by (simp add: handleTransfer_def Let_def updateMonth_eq del: One_nat_def)

lemma sub_Num: "sub (Num a) (Num b) = round_double (a - b)"
  by (simp add: sub_def)

lemma sum_list_update_int:
  "i < length ns \<Longrightarrow> sum_list (ns[i := x]) = sum_list ns - ns ! i + (x :: int)"
proof (induction ns arbitrary: i)
  case Nil
  then show ?case by simp
next
  case (Cons n ns)
  show ?case
  proof (cases i)
    case 0
    then show ?thesis by simp
  next
    case (Suc k)
    then show ?thesis using Cons.prems Cons.IH [of k] by simp
  qed
qed

lemma sumAllocated_whole:
  assumes "map allocatedAmount cs = map (\<lambda>n. Num (of_int n)) ns"
    and "\<forall>n\<in>set ns. 0 \<le> n" and "sum_list ns < 2 ^ 53"
  shows "sumAllocated cs = Num (of_int (sum_list ns))"
  using assms
proof (induction ns arbitrary: cs)
  case Nil
  then show ?case by simp
next
  case (Cons n ns)
  then obtain c cs' where cs: "cs = c # cs'" by (cases cs) auto
  have c: "allocatedAmount c = Num (of_int n)"
    and rest: "map allocatedAmount cs' = map (\<lambda>n. Num (of_int n)) ns"
    using Cons.prems(1) cs by simp_all
  have nn: "0 \<le> n" "\<forall>n\<in>set ns. 0 \<le> n" using Cons.prems(2) by simp_all
  then have s0: "0 \<le> sum_list ns" by (simp add: sum_list_nonneg)
  have lt: "n + sum_list ns < 2 ^ 53" using Cons.prems(3) by simp
  have "sum_list ns < 2 ^ 53" using lt nn(1) by linarith
  then have ih: "sumAllocated cs' = Num (of_int (sum_list ns))"
    using Cons.IH [OF rest nn(2)] by simp
  have "\<bar>n + sum_list ns\<bar> < 2 ^ 53" using lt nn(1) s0 by linarith
  then have "add (Num (of_int n)) (Num (of_int (sum_list ns))) = Num (of_int (n + sum_list ns))"
    by (rule add_whole)
  then show ?case by (simp add: cs c ih del: add.simps)
qed

text \<open>
  C3, as the handler has it. A transfer of the parsed amount \<open>a\<close> from the category at
  position \<open>i\<close> to the selected category at position \<open>j \<noteq> i\<close> sets the allocation of the
  source to the double difference of its allocation and \<open>a\<close>, and the allocation of the
  destination to the double sum of its allocation and \<open>a\<close> (the exact results rounded
  to the nearest double). Where nothing is rounded, as for whole numbers below
  \<open>2 ^ 53\<close>, the source has \<open>a\<close> less, the destination \<open>a\<close> more, and the sum of the two
  allocations is unchanged. The total budget is unchanged, and exactly two transactions
  of amount \<open>a\<close> are appended: a \<open>TRANSFER_OUT\<close> on the source and a \<open>TRANSFER_IN\<close> on the
  destination. Both land in the one month that replaces the current month.
\<close>

theorem handleTransfer_effect:
  assumes cur: "currentMonth s = Some cm"
    and sel: "selectedCategory s = Some sel"
    and amt: "tf_amount (transferForm s) \<noteq> []"
    and src: "fromCategoryId (transferForm s) \<noteq> []"
    and dist: "distinct (map cat_id (categories cm))"
    and i: "i < length (categories cm)"
    and j: "j < length (categories cm)"
    and isrc: "cat_id (categories cm ! i) = fromCategoryId (transferForm s)"
    and jsel: "cat_id (categories cm ! j) = cat_id sel"
    and ij: "i \<noteq> j"
  shows "\<exists>s' cm' tout tin.
           handleTransfer e s = Inr s' \<and>
           months (yearData s') = (months (yearData s))[selectedMonthIndex s := cm'] \<and>
           currentMonth s' = Some cm' \<and>
           tx_type tout = TRANSFER_OUT \<and>
           tx_amount tout = parseFloat e (tf_amount (transferForm s)) \<and>
           tx_type tin = TRANSFER_IN \<and>
           tx_amount tin = parseFloat e (tf_amount (transferForm s)) \<and>
           categories cm' =
             (categories cm)
               [i := (categories cm ! i)
                  \<lparr>allocatedAmount :=
                     sub (allocatedAmount (categories cm ! i))
                       (parseFloat e (tf_amount (transferForm s))),
                   transactions := transactions (categories cm ! i) @ [tout]\<rparr>,
                j := (categories cm ! j)
                  \<lparr>allocatedAmount :=
                     add (allocatedAmount (categories cm ! j))
                       (parseFloat e (tf_amount (transferForm s))),
                   transactions := transactions (categories cm ! j) @ [tin]\<rparr>] \<and>
           totalBudget cm' = totalBudget cm \<and>
           transactionCount (categories cm') = transactionCount (categories cm) + 2 \<and>
           (\<forall>x y k. allocatedAmount (categories cm ! i) = Num (of_int x) \<and>
              allocatedAmount (categories cm ! j) = Num (of_int y) \<and>
              parseFloat e (tf_amount (transferForm s)) = Num (of_int k) \<and>
              \<bar>x - k\<bar> < 2 ^ 53 \<and> \<bar>y + k\<bar> < 2 ^ 53 \<and> \<bar>x + y\<bar> < 2 ^ 53 \<longrightarrow>
              allocatedAmount (categories cm' ! i) = Num (of_int (x - k)) \<and>
              allocatedAmount (categories cm' ! j) = Num (of_int (y + k)) \<and>
              add (allocatedAmount (categories cm' ! i)) (allocatedAmount (categories cm' ! j)) =
                add (allocatedAmount (categories cm ! i)) (allocatedAmount (categories cm ! j)))"
proof -
  let ?cs = "categories cm"
  let ?a = "parseFloat e (tf_amount (transferForm s))"
  obtain tout tin cs' where out: "tout =
      \<lparr>tx_id = randomId e 0, tx_date = today e,
       tx_description =
         (if trim (tf_note (transferForm s)) \<noteq> [] then ''Out: '' @ trim (tf_note (transferForm s))
          else ''To '' @ cat_name sel),
       tx_amount = parseFloat e (tf_amount (transferForm s)), tx_type = TRANSFER_OUT,
       fromCategory = None, toCategory = None\<rparr>"
    and inn: "tin =
      \<lparr>tx_id = randomId e 1, tx_date = today e,
       tx_description =
         (if trim (tf_note (transferForm s)) \<noteq> [] then ''In: '' @ trim (tf_note (transferForm s))
          else ''From '' @ cat_name (?cs ! i)),
       tx_amount = parseFloat e (tf_amount (transferForm s)), tx_type = TRANSFER_IN,
       fromCategory = None, toCategory = None\<rparr>"
    and cs': "cs' =
      map (\<lambda>c. if cat_id c = cat_id (?cs ! i)
                then c\<lparr>allocatedAmount :=
                         sub (allocatedAmount c) (parseFloat e (tf_amount (transferForm s))),
                       transactions := transactions c @ [tout]\<rparr>
                else if cat_id c = cat_id sel
                then c\<lparr>allocatedAmount :=
                         add (allocatedAmount c) (parseFloat e (tf_amount (transferForm s))),
                       transactions := transactions c @ [tin]\<rparr>
                else c) ?cs"
    by blast
  let ?g = "\<lambda>c. c\<lparr>allocatedAmount := sub (allocatedAmount c) ?a,
                      transactions := transactions c @ [tout]\<rparr>"
  let ?h = "\<lambda>c. c\<lparr>allocatedAmount := add (allocatedAmount c) ?a,
                      transactions := transactions c @ [tin]\<rparr>"
  let ?cm' = "cm\<lparr>categories := cs'\<rparr>"
  let ?s' = "s\<lparr>yearData := (yearData s)\<lparr>months :=
                    (months (yearData s))[selectedMonthIndex s := ?cm']\<rparr>,
                  isTransferModalOpen := False,
                  transferForm := \<lparr>tf_amount = [], fromCategoryId = [], tf_note = []\<rparr>\<rparr>"
  have fnd: "find (\<lambda>c. cat_id c = fromCategoryId (transferForm s)) ?cs = Some (?cs ! i)"
    using find_key_distinct [OF dist i] isrc by simp
  have run: "handleTransfer e s = Inr ?s'"
    by (rule handleTransfer_run [OF cur sel amt src fnd out inn cs'])
  have upd: "cs' = ?cs[i := ?g (?cs ! i), j := ?h (?cs ! j)]"
    unfolding cs' jsel [symmetric]
    by (rule map_if_two_keys_update [OF dist i j ij, of ?g ?h])
  have ms: "months (yearData ?s') = (months (yearData s))[selectedMonthIndex s := ?cm']"
    by simp
  have cm: "currentMonth ?s' = Some ?cm'"
    using currentMonth_in_range [OF cur] by (simp add: currentMonth_def nth_opt_def)
  have ai: "allocatedAmount (cs' ! i) = sub (allocatedAmount (?cs ! i)) ?a"
    and aj: "allocatedAmount (cs' ! j) = add (allocatedAmount (?cs ! j)) ?a"
    unfolding upd using i j ij by simp_all
  have cnt: "transactionCount cs' = transactionCount ?cs + 2"
  proof -
    have "transactionCount (?cs[i := ?g (?cs ! i)]) = transactionCount ?cs + 1"
      using i by (intro transactionCount_update) simp_all
    moreover have "transactionCount (?cs[i := ?g (?cs ! i), j := ?h (?cs ! j)])
                   = transactionCount (?cs[i := ?g (?cs ! i)]) + 1"
      using j ij by (intro transactionCount_update) simp_all
    ultimately show ?thesis unfolding upd by simp
  qed
  have ty: "tx_type tout = TRANSFER_OUT" "tx_amount tout = ?a"
    "tx_type tin = TRANSFER_IN" "tx_amount tin = ?a"
    by (simp_all add: out inn)
  have whole: "\<forall>x y k. allocatedAmount (?cs ! i) = Num (of_int x) \<and>
              allocatedAmount (?cs ! j) = Num (of_int y) \<and> ?a = Num (of_int k) \<and>
              \<bar>x - k\<bar> < 2 ^ 53 \<and> \<bar>y + k\<bar> < 2 ^ 53 \<and> \<bar>x + y\<bar> < 2 ^ 53 \<longrightarrow>
              allocatedAmount (categories ?cm' ! i) = Num (of_int (x - k)) \<and>
              allocatedAmount (categories ?cm' ! j) = Num (of_int (y + k)) \<and>
              add (allocatedAmount (categories ?cm' ! i)) (allocatedAmount (categories ?cm' ! j)) =
                add (allocatedAmount (?cs ! i)) (allocatedAmount (?cs ! j))"
  proof (intro allI impI)
    fix x y k
    assume h: "allocatedAmount (?cs ! i) = Num (of_int x) \<and>
              allocatedAmount (?cs ! j) = Num (of_int y) \<and> ?a = Num (of_int k) \<and>
              \<bar>x - k\<bar> < 2 ^ 53 \<and> \<bar>y + k\<bar> < 2 ^ 53 \<and> \<bar>x + y\<bar> < 2 ^ 53"
    have x': "allocatedAmount (cs' ! i) = Num (of_int (x - k))"
      using h sub_whole [of x k] by (simp add: ai)
    have y': "allocatedAmount (cs' ! j) = Num (of_int (y + k))"
      using h add_whole [of y k] by (simp add: aj)
    have "\<bar>(x - k) + (y + k)\<bar> < 2 ^ 53" using h by simp
    then have "add (Num (of_int (x - k))) (Num (of_int (y + k))) = Num (of_int ((x - k) + (y + k)))"
      by (rule add_whole)
    moreover have "add (Num (of_int x)) (Num (of_int y)) = Num (of_int (x + y))"
      using h by (intro add_whole) simp
    ultimately have "add (allocatedAmount (cs' ! i)) (allocatedAmount (cs' ! j)) =
                add (allocatedAmount (?cs ! i)) (allocatedAmount (?cs ! j))"
      using h by (simp add: x' y' del: add.simps)
    then show "allocatedAmount (categories ?cm' ! i) = Num (of_int (x - k)) \<and>
              allocatedAmount (categories ?cm' ! j) = Num (of_int (y + k)) \<and>
              add (allocatedAmount (categories ?cm' ! i)) (allocatedAmount (categories ?cm' ! j)) =
                add (allocatedAmount (?cs ! i)) (allocatedAmount (?cs ! j))"
      using x' y' by simp
  qed
  have cs: "categories ?cm' = ?cs[i := ?g (?cs ! i), j := ?h (?cs ! j)]"
    using upd by simp
  have tot: "totalBudget ?cm' = totalBudget cm" by simp
  have cnt': "transactionCount (categories ?cm') = transactionCount ?cs + 2"
    using cnt by simp
  show ?thesis
    by (intro exI [of _ ?s'] exI [of _ ?cm'] exI [of _ tout] exI [of _ tin] conjI
        run ms cm ty cs tot cnt' whole)
qed

theorem handleTransfer_effect_witness:
  "currentMonth demo_state = Some demo_january \<and>
   selectedCategory demo_state = Some demo_groceries \<and>
   tf_amount (transferForm demo_state) \<noteq> [] \<and>
   fromCategoryId (transferForm demo_state) \<noteq> [] \<and>
   parseFloat demo_env (tf_amount (transferForm demo_state)) = Num 100 \<and>
   distinct (map cat_id (categories demo_january)) \<and>
   1 < length (categories demo_january) \<and> 0 < length (categories demo_january) \<and>
   cat_id (categories demo_january ! 1) = fromCategoryId (transferForm demo_state) \<and>
   cat_id (categories demo_january ! 0) = cat_id demo_groceries \<and> (1::nat) \<noteq> 0 \<and>
   map_option (\<lambda>m. map allocatedAmount (categories m))
     (resultingMonth (handleTransfer demo_env demo_state)) = Some [Num 500, Num 1100] \<and>
   add (Num 1100) (Num 500) = add (Num 1200) (Num 400) \<and>
   map_option (\<lambda>m. map (\<lambda>c. map tx_type (transactions c)) (categories m))
     (resultingMonth (handleTransfer demo_env demo_state)) = Some [[TRANSFER_IN], [TRANSFER_OUT]] \<and>
   map_option totalBudget (resultingMonth (handleTransfer demo_env demo_state)) = Some (Num 1600)"
proof -
  have h2: "selectedCategory demo_state = Some demo_groceries"
    and h3: "tf_amount (transferForm demo_state) \<noteq> []"
    and h4: "fromCategoryId (transferForm demo_state) \<noteq> []"
    and h5: "parseFloat demo_env (tf_amount (transferForm demo_state)) = Num 100"
    by (simp_all add: demo_state_def demo_env_def parseFloat_sample_def)
  have h7: "1 < length (categories demo_january)" and h8: "0 < length (categories demo_january)"
    and h9: "cat_id (categories demo_january ! 1) = fromCategoryId (transferForm demo_state)"
    and h10: "cat_id (categories demo_january ! 0) = cat_id demo_groceries"
    by (simp_all add: demo_january_def demo_state_def demo_rent_def)
  have h11: "(1::nat) \<noteq> 0" by simp
  obtain s' cm' tout tin where r: "handleTransfer demo_env demo_state = Inr s'"
    and c: "currentMonth s' = Some cm'"
    and ty: "tx_type tout = TRANSFER_OUT" "tx_type tin = TRANSFER_IN"
    and cs: "categories cm' =
             (categories demo_january)
               [1 := (categories demo_january ! 1)
                  \<lparr>allocatedAmount :=
                     sub (allocatedAmount (categories demo_january ! 1))
                       (parseFloat demo_env (tf_amount (transferForm demo_state))),
                   transactions := transactions (categories demo_january ! 1) @ [tout]\<rparr>,
                0 := (categories demo_january ! 0)
                  \<lparr>allocatedAmount :=
                     add (allocatedAmount (categories demo_january ! 0))
                       (parseFloat demo_env (tf_amount (transferForm demo_state))),
                   transactions := transactions (categories demo_january ! 0) @ [tin]\<rparr>]"
    and b: "totalBudget cm' = totalBudget demo_january"
    and w: "\<forall>x y k. allocatedAmount (categories demo_january ! 1) = Num (of_int x) \<and>
              allocatedAmount (categories demo_january ! 0) = Num (of_int y) \<and>
              parseFloat demo_env (tf_amount (transferForm demo_state)) = Num (of_int k) \<and>
              \<bar>x - k\<bar> < 2 ^ 53 \<and> \<bar>y + k\<bar> < 2 ^ 53 \<and> \<bar>x + y\<bar> < 2 ^ 53 \<longrightarrow>
              allocatedAmount (categories cm' ! 1) = Num (of_int (x - k)) \<and>
              allocatedAmount (categories cm' ! 0) = Num (of_int (y + k)) \<and>
              add (allocatedAmount (categories cm' ! 1)) (allocatedAmount (categories cm' ! 0)) =
                add (allocatedAmount (categories demo_january ! 1))
                  (allocatedAmount (categories demo_january ! 0))"
    using handleTransfer_effect [OF demo_currentMonth h2 h3 h4 demo_distinct h7 h8 h9 h10 h11,
        of demo_env]
    by blast
  have "allocatedAmount (categories demo_january ! 1) = Num (of_int 1200) \<and>
        allocatedAmount (categories demo_january ! 0) = Num (of_int 400) \<and>
        parseFloat demo_env (tf_amount (transferForm demo_state)) = Num (of_int 100) \<and>
        \<bar>1200 - 100\<bar> < (2::int) ^ 53 \<and> \<bar>400 + 100\<bar> < (2::int) ^ 53 \<and>
        \<bar>1200 + 400\<bar> < (2::int) ^ 53"
    by (simp add: demo_defs)
  with w have w': "allocatedAmount (categories cm' ! 1) = Num (of_int (1200 - 100)) \<and>
              allocatedAmount (categories cm' ! 0) = Num (of_int (400 + 100)) \<and>
              add (allocatedAmount (categories cm' ! 1)) (allocatedAmount (categories cm' ! 0)) =
                add (allocatedAmount (categories demo_january ! 1))
                  (allocatedAmount (categories demo_january ! 0))"
    by blast
  have res: "resultingMonth (handleTransfer demo_env demo_state) = Some cm'"
    by (simp add: r c resultingMonth_def)
  have len: "length (categories cm') = 2"
    by (simp add: cs demo_january_def)
  have a0: "allocatedAmount (categories cm' ! 0) = Num 500"
    and a1: "allocatedAmount (categories cm' ! 1) = Num 1100"
    using w' by simp_all
  have "map allocatedAmount (categories cm') = [Num 500, Num 1100]"
    using len a0 a1 by (auto simp: list_eq_iff_nth_eq less_Suc_eq numeral_2_eq_2)
  moreover have "add (Num 1100) (Num 500) = add (Num 1200) (Num 400)"
    by simp
  moreover have "map (\<lambda>c. map tx_type (transactions c)) (categories cm') = [[TRANSFER_IN], [TRANSFER_OUT]]"
    by (simp add: cs ty demo_january_def demo_groceries_def demo_rent_def)
  moreover have "totalBudget cm' = Num 1600"
    by (simp add: b demo_january_def)
  ultimately show ?thesis
    using demo_currentMonth h2 h3 h4 h5 demo_distinct h7 h8 h9 h10 res by simp
qed

text \<open>
  C3 as stated has the source decrease by the amount and the sum of the two allocations
  unchanged. With the allocations 400.1 of the source and 1200.2 of the destination and
  the amount 100.1 (each the double nearest to the decimal) the handler stores 300 and
  1300.3: the source has not decreased by the amount, and the sum of the two, the double
  1600.3000000000002 before the transfer, is the double 1600.3 after it.
\<close>

theorem handleTransfer_sum_rounds:
  "round_double (4001 / 10) = Num (3519316818185421 / 8796093022208) \<and>
   round_double (6001 / 5) = Num (5278535422627021 / 4398046511104) \<and>
   parseFloat demo_env ''100.1'' = Num (3521955646092083 / 35184372088832) \<and>
   map_option (\<lambda>m. map allocatedAmount (categories m))
     (resultingMonth (handleTransfer demo_env
        (demo_with (round_double (6001 / 5)) (round_double (4001 / 10)) (Num 1600) ''100.1'')))
     = Some [Num (5718779878388531 / 4398046511104), Num 300] \<and>
   (3519316818185421 / 8796093022208 - 300 :: rat) \<noteq> 3521955646092083 / 35184372088832 \<and>
   add (Num (3519316818185421 / 8796093022208)) (Num (5278535422627021 / 4398046511104))
     = Num (1759548457929933 / 1099511627776) \<and>
   add (Num 300) (Num (5718779878388531 / 4398046511104))
     = Num (7038193831719731 / 4398046511104) \<and>
   (1759548457929933 / 1099511627776 :: rat) \<noteq> 7038193831719731 / 4398046511104"
  by (simp add: resultingMonth_def handleTransfer_def demo_with_currentMonth updateMonth_eq
      Let_def demo_with_def currentMonth_def nth_opt_def trim_def demo_defs double_samples
      double_sums double_sums_more double_differences del: add.simps)

text \<open>
  C10, as the handler has it. The handler does not test that source and destination
  differ. When the selected category is the source itself, only the first branch of the
  update applies: the category receives a single \<open>TRANSFER_OUT\<close>, no \<open>TRANSFER_IN\<close> is
  created, its allocation becomes the double difference of the allocation and the
  amount, and no other allocation changes, so that the allocations are not rebalanced.
  Where nothing is rounded (whole allocations that are not negative, with a sum below
  \<open>2 ^ 53\<close>, and a whole amount that is not negative and not above the allocation) the sum
  of the allocations of the month decreases by the amount.
\<close>

theorem handleTransfer_same_category:
  assumes cur: "currentMonth s = Some cm"
    and sel: "selectedCategory s = Some sel"
    and amt: "tf_amount (transferForm s) \<noteq> []"
    and src: "fromCategoryId (transferForm s) \<noteq> []"
    and dist: "distinct (map cat_id (categories cm))"
    and i: "i < length (categories cm)"
    and isrc: "cat_id (categories cm ! i) = fromCategoryId (transferForm s)"
    and same: "cat_id sel = fromCategoryId (transferForm s)"
  shows "\<exists>cm' tout.
           resultingMonth (handleTransfer e s) = Some cm' \<and>
           tx_type tout = TRANSFER_OUT \<and>
           tx_amount tout = parseFloat e (tf_amount (transferForm s)) \<and>
           categories cm' =
             (categories cm)
               [i := (categories cm ! i)
                  \<lparr>allocatedAmount :=
                     sub (allocatedAmount (categories cm ! i))
                       (parseFloat e (tf_amount (transferForm s))),
                   transactions := transactions (categories cm ! i) @ [tout]\<rparr>] \<and>
           transactionCount (categories cm') = transactionCount (categories cm) + 1 \<and>
           totalBudget cm' = totalBudget cm \<and>
           (\<forall>ns k. map allocatedAmount (categories cm) = map (\<lambda>n. Num (of_int n)) ns \<and>
              (\<forall>n\<in>set ns. 0 \<le> n) \<and> sum_list ns < 2 ^ 53 \<and>
              parseFloat e (tf_amount (transferForm s)) = Num (of_int k) \<and>
              0 \<le> k \<and> k \<le> ns ! i \<longrightarrow>
              sumAllocated (categories cm) = Num (of_int (sum_list ns)) \<and>
              sumAllocated (categories cm') = Num (of_int (sum_list ns - k)))"
proof -
  let ?cs = "categories cm"
  let ?a = "parseFloat e (tf_amount (transferForm s))"
  obtain tout tin cs' where out: "tout =
      \<lparr>tx_id = randomId e 0, tx_date = today e,
       tx_description =
         (if trim (tf_note (transferForm s)) \<noteq> [] then ''Out: '' @ trim (tf_note (transferForm s))
          else ''To '' @ cat_name sel),
       tx_amount = parseFloat e (tf_amount (transferForm s)), tx_type = TRANSFER_OUT,
       fromCategory = None, toCategory = None\<rparr>"
    and inn: "tin =
      \<lparr>tx_id = randomId e 1, tx_date = today e,
       tx_description =
         (if trim (tf_note (transferForm s)) \<noteq> [] then ''In: '' @ trim (tf_note (transferForm s))
          else ''From '' @ cat_name (?cs ! i)),
       tx_amount = parseFloat e (tf_amount (transferForm s)), tx_type = TRANSFER_IN,
       fromCategory = None, toCategory = None\<rparr>"
    and cs': "cs' =
      map (\<lambda>c. if cat_id c = cat_id (?cs ! i)
                then c\<lparr>allocatedAmount :=
                         sub (allocatedAmount c) (parseFloat e (tf_amount (transferForm s))),
                       transactions := transactions c @ [tout]\<rparr>
                else if cat_id c = cat_id sel
                then c\<lparr>allocatedAmount :=
                         add (allocatedAmount c) (parseFloat e (tf_amount (transferForm s))),
                       transactions := transactions c @ [tin]\<rparr>
                else c) ?cs"
    by blast
  let ?g = "\<lambda>c. c\<lparr>allocatedAmount := sub (allocatedAmount c) ?a,
                      transactions := transactions c @ [tout]\<rparr>"
  let ?cm' = "cm\<lparr>categories := cs'\<rparr>"
  have fnd: "find (\<lambda>c. cat_id c = fromCategoryId (transferForm s)) ?cs = Some (?cs ! i)"
    using find_key_distinct [OF dist i] isrc by simp
  have run: "resultingMonth (handleTransfer e s) = Some ?cm'"
    unfolding handleTransfer_run [OF cur sel amt src fnd out inn cs']
    using currentMonth_in_range [OF cur]
    by (simp add: resultingMonth_def currentMonth_def nth_opt_def)
  have "cs' = map (\<lambda>c. if cat_id c = cat_id (?cs ! i) then ?g c else c) ?cs"
    unfolding cs' using isrc same by simp
  then have upd: "cs' = ?cs[i := ?g (?cs ! i)]"
    using map_if_key_update [OF dist i, of ?g] by simp
  have cnt: "transactionCount (categories ?cm') = transactionCount ?cs + 1"
    unfolding upd using i by (simp add: transactionCount_update)
  have ty: "tx_type tout = TRANSFER_OUT" "tx_amount tout = ?a"
    by (simp_all add: out)
  have cs: "categories ?cm' = ?cs[i := ?g (?cs ! i)]" using upd by simp
  have tot: "totalBudget ?cm' = totalBudget cm" by simp
  have whole: "\<forall>ns k. map allocatedAmount ?cs = map (\<lambda>n. Num (of_int n)) ns \<and>
              (\<forall>n\<in>set ns. 0 \<le> n) \<and> sum_list ns < 2 ^ 53 \<and> ?a = Num (of_int k) \<and>
              0 \<le> k \<and> k \<le> ns ! i \<longrightarrow>
              sumAllocated ?cs = Num (of_int (sum_list ns)) \<and>
              sumAllocated (categories ?cm') = Num (of_int (sum_list ns - k))"
  proof (intro allI impI)
    fix ns k
    assume h: "map allocatedAmount ?cs = map (\<lambda>n. Num (of_int n)) ns \<and>
              (\<forall>n\<in>set ns. 0 \<le> n) \<and> sum_list ns < 2 ^ 53 \<and> ?a = Num (of_int k) \<and>
              0 \<le> k \<and> k \<le> ns ! i"
    then have len: "length ns = length ?cs" by (metis length_map)
    then have ins: "i < length ns" using i by simp
    have ai: "allocatedAmount (?cs ! i) = Num (of_int (ns ! i))"
      using h i ins nth_map [of i ?cs allocatedAmount] nth_map [of i ns "\<lambda>n. Num (of_int n)"]
      by simp
    have nn: "0 \<le> ns ! i" using h ins by simp
    have le: "ns ! i \<le> sum_list ns"
      using h ins by (intro member_le_sum_list) simp_all
    have "\<bar>ns ! i - k\<bar> < 2 ^ 53" using h nn le by linarith
    then have d: "sub (allocatedAmount (?cs ! i)) ?a = Num (of_int (ns ! i - k))"
      using h sub_whole [of "ns ! i" k] by (simp add: ai)
    have m': "map allocatedAmount cs' = map (\<lambda>n. Num (of_int n)) (ns[i := ns ! i - k])"
      unfolding upd using h d by (simp add: map_update)
    have nn': "\<forall>n\<in>set (ns[i := ns ! i - k]). 0 \<le> n"
    proof
      fix n assume "n \<in> set (ns[i := ns ! i - k])"
      then have "n = ns ! i - k \<or> n \<in> set ns"
        using set_update_subset_insert [of ns i "ns ! i - k"] by auto
      then show "0 \<le> n" using h by auto
    qed
    have s': "sum_list (ns[i := ns ! i - k]) = sum_list ns - k"
      using sum_list_update_int [OF ins, of "ns ! i - k"] by simp
    have "sumAllocated ?cs = Num (of_int (sum_list ns))"
      using h by (intro sumAllocated_whole) simp_all
    moreover have "sumAllocated cs' = Num (of_int (sum_list (ns[i := ns ! i - k])))"
      using h nn' s' by (intro sumAllocated_whole [OF m']) simp_all
    ultimately show "sumAllocated ?cs = Num (of_int (sum_list ns)) \<and>
              sumAllocated (categories ?cm') = Num (of_int (sum_list ns - k))"
      using s' by simp
  qed
  show ?thesis
    by (intro exI [of _ ?cm'] exI [of _ tout] conjI run ty cs cnt tot whole)
qed

theorem handleTransfer_same_category_witness:
  "currentMonth (demo_state\<lparr>transferForm :=
       \<lparr>tf_amount = ''100'', fromCategoryId = ''g7h2k9d1s'', tf_note = []\<rparr>\<rparr>) = Some demo_january \<and>
   distinct (map cat_id (categories demo_january)) \<and>
   cat_id (categories demo_january ! 0) = ''g7h2k9d1s'' \<and>
   cat_id demo_groceries = ''g7h2k9d1s'' \<and>
   map_option (\<lambda>m. map allocatedAmount (categories m))
     (resultingMonth (handleTransfer demo_env (demo_state\<lparr>transferForm :=
       \<lparr>tf_amount = ''100'', fromCategoryId = ''g7h2k9d1s'', tf_note = []\<rparr>\<rparr>)))
     = Some [Num 300, Num 1200] \<and>
   map_option (\<lambda>m. map (\<lambda>c. map tx_type (transactions c)) (categories m))
     (resultingMonth (handleTransfer demo_env (demo_state\<lparr>transferForm :=
       \<lparr>tf_amount = ''100'', fromCategoryId = ''g7h2k9d1s'', tf_note = []\<rparr>\<rparr>)))
     = Some [[TRANSFER_OUT], []] \<and>
   sumAllocated (categories demo_january) = Num 1600 \<and>
   map_option (\<lambda>m. sumAllocated (categories m))
     (resultingMonth (handleTransfer demo_env (demo_state\<lparr>transferForm :=
       \<lparr>tf_amount = ''100'', fromCategoryId = ''g7h2k9d1s'', tf_note = []\<rparr>\<rparr>)))
     = Some (Num 1500)"
proof -
  let ?s = "demo_state\<lparr>transferForm :=
       \<lparr>tf_amount = ''100'', fromCategoryId = ''g7h2k9d1s'', tf_note = []\<rparr>\<rparr>"
  have h1: "currentMonth ?s = Some demo_january"
    by (simp add: currentMonth_def nth_opt_def demo_state_def demo_year_def)
  have h2: "selectedCategory ?s = Some demo_groceries"
    and h3: "tf_amount (transferForm ?s) \<noteq> []"
    and h4: "fromCategoryId (transferForm ?s) \<noteq> []"
    by (simp_all add: demo_state_def)
  have h6: "0 < length (categories demo_january)"
    and h7: "cat_id (categories demo_january ! 0) = fromCategoryId (transferForm ?s)"
    and h8: "cat_id demo_groceries = fromCategoryId (transferForm ?s)"
    by (simp_all add: demo_january_def demo_groceries_def)
  have pa: "parseFloat demo_env (tf_amount (transferForm ?s)) = Num 100"
    by (simp add: demo_env_def parseFloat_sample_def)
  obtain cm' tout where r: "resultingMonth (handleTransfer demo_env ?s) = Some cm'"
    and ty: "tx_type tout = TRANSFER_OUT"
    and cs: "categories cm' =
             (categories demo_january)
               [0 := (categories demo_january ! 0)
                  \<lparr>allocatedAmount :=
                     sub (allocatedAmount (categories demo_january ! 0))
                       (parseFloat demo_env (tf_amount (transferForm ?s))),
                   transactions := transactions (categories demo_january ! 0) @ [tout]\<rparr>]"
    and w: "\<forall>ns k. map allocatedAmount (categories demo_january) = map (\<lambda>n. Num (of_int n)) ns \<and>
              (\<forall>n\<in>set ns. 0 \<le> n) \<and> sum_list ns < 2 ^ 53 \<and>
              parseFloat demo_env (tf_amount (transferForm ?s)) = Num (of_int k) \<and>
              0 \<le> k \<and> k \<le> ns ! 0 \<longrightarrow>
              sumAllocated (categories demo_january) = Num (of_int (sum_list ns)) \<and>
              sumAllocated (categories cm') = Num (of_int (sum_list ns - k))"
    using handleTransfer_same_category [OF h1 h2 h3 h4 demo_distinct h6 h7 h8, of demo_env]
    by blast
  have "map allocatedAmount (categories demo_january) = map (\<lambda>n. Num (of_int n)) [400, 1200] \<and>
        (\<forall>n\<in>set [400, 1200 :: int]. 0 \<le> n) \<and> sum_list [400, 1200 :: int] < 2 ^ 53 \<and>
        parseFloat demo_env (tf_amount (transferForm ?s)) = Num (of_int 100) \<and>
        (0::int) \<le> 100 \<and> (100::int) \<le> [400, 1200] ! 0"
    by (simp add: demo_env_def parseFloat_sample_def demo_january_def demo_groceries_def
        demo_rent_def)
  with w have w': "sumAllocated (categories demo_january) = Num (of_int (sum_list [400, 1200])) \<and>
              sumAllocated (categories cm') = Num (of_int (sum_list [400, 1200] - 100))"
    by blast
  have a: "map allocatedAmount (categories cm') = [Num 300, Num 1200]"
    unfolding cs pa by (simp add: sub_Num demo_january_def demo_groceries_def demo_rent_def)
  have t: "map (\<lambda>c. map tx_type (transactions c)) (categories cm') = [[TRANSFER_OUT], []]"
    unfolding cs pa by (simp add: ty demo_january_def demo_groceries_def demo_rent_def)
  have s0: "sumAllocated (categories demo_january) = Num 1600"
    and s1: "sumAllocated (categories cm') = Num 1500"
    using w' by simp_all
  have i0: "cat_id (categories demo_january ! 0) = ''g7h2k9d1s''"
    and i1: "cat_id demo_groceries = ''g7h2k9d1s''"
    by (simp_all add: demo_january_def demo_groceries_def)
  show ?thesis
    using h1 demo_distinct i0 i1 r a t s0 s1 by simp
qed

text \<open>
  C10 as stated has the allocation, and with it the sum of the allocations of the month,
  decrease by the amount. With the allocations 400.1 and 1200.2 and a transfer of 100.1
  from the first category to itself (each the double nearest to the decimal), the
  allocation becomes 300, the sum of the allocations goes from the double
  1600.3000000000002 to the double 1500.2, and neither the exact difference of the two
  sums nor the double difference 1500.2000000000003 of the old sum and the amount gives
  the new sum.
\<close>

theorem handleTransfer_same_category_rounds:
  "parseFloat demo_env ''100.1'' = Num (3521955646092083 / 35184372088832) \<and>
   map_option (\<lambda>m. map allocatedAmount (categories m))
     (currentMonth ((demo_with (round_double (4001 / 10)) (round_double (6001 / 5)) (Num 1600)
        ''100.1'')\<lparr>transferForm :=
          \<lparr>tf_amount = ''100.1'', fromCategoryId = ''g7h2k9d1s'', tf_note = []\<rparr>\<rparr>))
     = Some [Num (3519316818185421 / 8796093022208), Num (5278535422627021 / 4398046511104)] \<and>
   map_option (\<lambda>m. sumAllocated (categories m))
     (currentMonth ((demo_with (round_double (4001 / 10)) (round_double (6001 / 5)) (Num 1600)
        ''100.1'')\<lparr>transferForm :=
          \<lparr>tf_amount = ''100.1'', fromCategoryId = ''g7h2k9d1s'', tf_note = []\<rparr>\<rparr>))
     = Some (Num (1759548457929933 / 1099511627776)) \<and>
   map_option (\<lambda>m. map allocatedAmount (categories m))
     (resultingMonth (handleTransfer demo_env
        ((demo_with (round_double (4001 / 10)) (round_double (6001 / 5)) (Num 1600)
           ''100.1'')\<lparr>transferForm :=
             \<lparr>tf_amount = ''100.1'', fromCategoryId = ''g7h2k9d1s'', tf_note = []\<rparr>\<rparr>)))
     = Some [Num 300, Num (5278535422627021 / 4398046511104)] \<and>
   map_option (\<lambda>m. sumAllocated (categories m))
     (resultingMonth (handleTransfer demo_env
        ((demo_with (round_double (4001 / 10)) (round_double (6001 / 5)) (Num 1600)
           ''100.1'')\<lparr>transferForm :=
             \<lparr>tf_amount = ''100.1'', fromCategoryId = ''g7h2k9d1s'', tf_note = []\<rparr>\<rparr>)))
     = Some (Num (6597949375958221 / 4398046511104)) \<and>
   sub (Num (1759548457929933 / 1099511627776)) (Num (3521955646092083 / 35184372088832))
     = Num (3298974687979111 / 2199023255552) \<and>
   (3298974687979111 / 2199023255552 :: rat) \<noteq> 6597949375958221 / 4398046511104 \<and>
   (1759548457929933 / 1099511627776 - 6597949375958221 / 4398046511104 :: rat)
     \<noteq> 3521955646092083 / 35184372088832 \<and>
   (3519316818185421 / 8796093022208 - 300 :: rat) \<noteq> 3521955646092083 / 35184372088832"
  by (simp add: resultingMonth_def handleTransfer_def updateMonth_eq
      Let_def demo_with_def currentMonth_def nth_opt_def trim_def demo_defs double_samples
      double_sums double_differences del: add.simps)


section \<open>Deleting a category\<close>

lemma deleteCategory_found:
  assumes cur: "currentMonth s = Some cm" and conf: "confirm e"
    and fnd: "find (\<lambda>c. cat_id c = ident) (categories cm) = Some cat"
  shows "resultingMonth (deleteCategory e ident s) =
           Some (cm\<lparr>categories := filter (\<lambda>c. cat_id c \<noteq> ident) (categories cm),
                    totalBudget := sub (totalBudget cm) (allocatedAmount cat)\<rparr>)"
  using cur conf fnd currentMonth_in_range [OF cur]
  by (simp add: deleteCategory_def resultingMonth_def updateMonth_eq currentMonth_def nth_opt_def)

text \<open>
  C7, as the handler has it. In a month with pairwise distinct identifiers, deleting
  (and confirming the deletion of) the category at position \<open>j\<close> yields the month whose
  categories are the others, unchanged and in their order, and whose total budget is the
  double difference of the old total budget and the allocation of the deleted category
  (the exact difference rounded to the nearest double; where that difference is a
  double, as for whole numbers below \<open>2 ^ 53\<close>, the total budget has exactly the
  allocation less). The transactions of the category go with it, and nothing else in
  the month changes. For an identifier that no category has (or when the user does not
  confirm) the state is returned as it is.
\<close>

theorem deleteCategory_effect:
  assumes cur: "currentMonth s = Some cm"
    and dist: "distinct (map cat_id (categories cm))"
  shows "(confirm e \<and> j < length (categories cm) \<and> cat_id (categories cm ! j) = ident \<longrightarrow>
           (\<exists>cm'. resultingMonth (deleteCategory e ident s) = Some cm' \<and>
              categories cm' = take j (categories cm) @ drop (Suc j) (categories cm) \<and>
              totalBudget cm' = sub (totalBudget cm) (allocatedAmount (categories cm ! j)) \<and>
              cm' = cm\<lparr>categories := categories cm', totalBudget := totalBudget cm'\<rparr> \<and>
              (\<forall>b m. totalBudget cm = Num (of_int b) \<and>
                 allocatedAmount (categories cm ! j) = Num (of_int m) \<and> \<bar>b - m\<bar> < 2 ^ 53 \<longrightarrow>
                 totalBudget cm' = Num (of_int (b - m))))) \<and>
         (ident \<notin> set (map cat_id (categories cm)) \<or> \<not> confirm e \<longrightarrow>
           deleteCategory e ident s = Inr s)"
proof (intro conjI impI)
  assume a: "confirm e \<and> j < length (categories cm) \<and> cat_id (categories cm ! j) = ident"
  let ?cs = "categories cm"
  let ?cm' = "cm\<lparr>categories := take j ?cs @ drop (Suc j) ?cs,
                  totalBudget := sub (totalBudget cm) (allocatedAmount (?cs ! j))\<rparr>"
  have fnd: "find (\<lambda>c. cat_id c = ident) ?cs = Some (?cs ! j)"
    using find_key_distinct [OF dist, of j] a by auto
  have flt: "filter (\<lambda>c. cat_id c \<noteq> ident) ?cs = take j ?cs @ drop (Suc j) ?cs"
    using filter_key_distinct [OF dist, of j] a by (auto simp: removeAt_def)
  have res: "resultingMonth (deleteCategory e ident s) = Some ?cm'"
    using deleteCategory_found [OF cur _ fnd] a flt by simp
  have whole: "\<forall>b m. totalBudget cm = Num (of_int b) \<and>
                 allocatedAmount (?cs ! j) = Num (of_int m) \<and> \<bar>b - m\<bar> < 2 ^ 53 \<longrightarrow>
                 totalBudget ?cm' = Num (of_int (b - m))"
    using sub_whole by simp
  have rest: "categories ?cm' = take j ?cs @ drop (Suc j) ?cs"
    "totalBudget ?cm' = sub (totalBudget cm) (allocatedAmount (?cs ! j))"
    "?cm' = cm\<lparr>categories := categories ?cm', totalBudget := totalBudget ?cm'\<rparr>"
    by simp_all
  show "\<exists>cm'. resultingMonth (deleteCategory e ident s) = Some cm' \<and>
              categories cm' = take j ?cs @ drop (Suc j) ?cs \<and>
              totalBudget cm' = sub (totalBudget cm) (allocatedAmount (?cs ! j)) \<and>
              cm' = cm\<lparr>categories := categories cm', totalBudget := totalBudget cm'\<rparr> \<and>
              (\<forall>b m. totalBudget cm = Num (of_int b) \<and>
                 allocatedAmount (?cs ! j) = Num (of_int m) \<and> \<bar>b - m\<bar> < 2 ^ 53 \<longrightarrow>
                 totalBudget cm' = Num (of_int (b - m)))"
    by (intro exI [of _ ?cm'] conjI res rest whole)
next
  assume "ident \<notin> set (map cat_id (categories cm)) \<or> \<not> confirm e"
  then show "deleteCategory e ident s = Inr s"
    using cur find_key_None [of ident cat_id "categories cm"]
    by (auto simp: deleteCategory_def)
qed

theorem deleteCategory_effect_witness:
  "currentMonth demo_state = Some demo_january \<and>
   distinct (map cat_id (categories demo_january)) \<and>
   confirm demo_env \<and> 1 < length (categories demo_january) \<and>
   cat_id (categories demo_january ! 1) = ''r4t8w2q6z'' \<and>
   map_option categories (resultingMonth (deleteCategory demo_env ''r4t8w2q6z'' demo_state))
     = Some [demo_groceries] \<and>
   map_option totalBudget (resultingMonth (deleteCategory demo_env ''r4t8w2q6z'' demo_state))
     = Some (Num 400) \<and>
   ''nosuchid0'' \<notin> set (map cat_id (categories demo_january)) \<and>
   deleteCategory demo_env ''nosuchid0'' demo_state = Inr demo_state"
proof -
  have h: "confirm demo_env \<and> 1 < length (categories demo_january) \<and>
           cat_id (categories demo_january ! 1) = ''r4t8w2q6z''"
    by (simp add: demo_env_def demo_january_def demo_rent_def)
  have n: "''nosuchid0'' \<notin> set (map cat_id (categories demo_january))"
    by (simp add: demo_january_def demo_rent_def demo_groceries_def)
  note th = deleteCategory_effect [OF demo_currentMonth demo_distinct]
  obtain cm' where r: "resultingMonth (deleteCategory demo_env ''r4t8w2q6z'' demo_state) = Some cm'"
    and c: "categories cm' = take 1 (categories demo_january) @ drop (Suc 1) (categories demo_january)"
    and w: "\<forall>b m. totalBudget demo_january = Num (of_int b) \<and>
                 allocatedAmount (categories demo_january ! 1) = Num (of_int m) \<and>
                 \<bar>b - m\<bar> < 2 ^ 53 \<longrightarrow> totalBudget cm' = Num (of_int (b - m))"
    using th [of demo_env 1 "''r4t8w2q6z''"] h by blast
  have c': "categories cm' = [demo_groceries]"
    unfolding c by (simp add: demo_january_def)
  have "totalBudget demo_january = Num (of_int 1600) \<and>
        allocatedAmount (categories demo_january ! 1) = Num (of_int 1200) \<and>
        \<bar>1600 - 1200\<bar> < (2::int) ^ 53"
    by (simp add: demo_january_def demo_rent_def)
  with w have "totalBudget cm' = Num (of_int (1600 - 1200))" by blast
  then have b': "totalBudget cm' = Num 400" by simp
  have u: "deleteCategory demo_env ''nosuchid0'' demo_state = Inr demo_state"
    using th [of demo_env 0 "''nosuchid0''"] n by blast
  show ?thesis
    using demo_currentMonth demo_distinct h n r c' b' u by simp
qed

text \<open>
  C7 as stated has the total budget decrease by exactly the allocation of the deleted
  category. With the total budget 1600.3 and a deleted category whose allocation is 0.1
  (each the double nearest to the decimal) the handler stores the double 1600.2, and
  the difference of the old and the new total budget is not the allocation.
\<close>

theorem deleteCategory_total_rounds:
  "round_double (16003 / 10) = Num (7038193831719731 / 4398046511104) \<and>
   round_double (1 / 10) = Num (3602879701896397 / 36028797018963968) \<and>
   map_option (\<lambda>m. map allocatedAmount (categories m))
     (currentMonth (demo_with (Num 400) (round_double (1 / 10)) (round_double (16003 / 10)) ''20''))
     = Some [Num 400, Num (3602879701896397 / 36028797018963968)] \<and>
   map_option categories
     (resultingMonth (deleteCategory demo_env ''r4t8w2q6z''
        (demo_with (Num 400) (round_double (1 / 10)) (round_double (16003 / 10)) ''20'')))
     = Some [demo_groceries] \<and>
   map_option totalBudget
     (resultingMonth (deleteCategory demo_env ''r4t8w2q6z''
        (demo_with (Num 400) (round_double (1 / 10)) (round_double (16003 / 10)) ''20'')))
     = Some (Num (7037754027068621 / 4398046511104)) \<and>
   (7038193831719731 / 4398046511104 - 7037754027068621 / 4398046511104 :: rat)
     \<noteq> 3602879701896397 / 36028797018963968"
  by (simp add: resultingMonth_def deleteCategory_def updateMonth_eq
      Let_def demo_with_def currentMonth_def nth_opt_def demo_defs double_samples
      double_differences del: add.simps)

section \<open>Reordering\<close>

lemma moveCategory_cases:
  assumes cur: "currentMonth s = Some cm"
  shows "moveCategory ident dir s = Inr s \<or>
         (\<exists>i t. i < length (categories cm) \<and> t < length (categories cm) \<and>
            moveCategory ident dir s =
              Inr (updateMonth (cm\<lparr>categories :=
                     insertAt t (categories cm ! i) (removeAt i (categories cm))\<rparr>) s))"
proof -
  let ?cs = "categories cm"
  let ?ix = "findIndex (\<lambda>c. cat_id c = ident) ?cs"
  let ?tg = "if dir = UP then ?ix - 1 else ?ix + 1"
  show ?thesis
  proof (cases "?ix < 0 \<or> ?tg < 0 \<or> ?tg \<ge> int (length ?cs)")
    case True
    then show ?thesis using cur by (auto simp: moveCategory_def Let_def)
  next
    case False
    then have ix: "0 \<le> ?ix" and tg: "0 \<le> ?tg" "?tg < int (length ?cs)" by auto
    have "nat ?ix < length ?cs" using findIndex_lt [of "\<lambda>c. cat_id c = ident" ?cs] ix by linarith
    moreover have "nat ?tg < length ?cs" using tg by linarith
    moreover have "moveCategory ident dir s =
        Inr (updateMonth (cm\<lparr>categories :=
               insertAt (nat ?tg) (?cs ! nat ?ix) (removeAt (nat ?ix) ?cs)\<rparr>) s)"
      using cur False by (simp add: moveCategory_def Let_def)
    ultimately show ?thesis by blast
  qed
qed

text \<open>
  C9. Moving a category up or down yields a month whose categories are a permutation of
  the old ones: the multiset of categories (each category being the whole, unmodified
  value) is the same and nothing else in the month changes. Moving the first category up
  returns the state as it is, and so does moving the last category down (the identifiers
  being pairwise distinct, so that the identifier finds the last position).
\<close>

theorem moveCategory_permutation:
  assumes cur: "currentMonth s = Some cm"
  shows "\<exists>s' cm'.
           moveCategory ident dir s = Inr s' \<and> currentMonth s' = Some cm' \<and>
           mset (categories cm') = mset (categories cm) \<and>
           cm' = cm\<lparr>categories := categories cm'\<rparr> \<and>
           (categories cm \<noteq> [] \<and> cat_id (hd (categories cm)) = ident \<and> dir = UP
              \<longrightarrow> s' = s) \<and>
           (categories cm \<noteq> [] \<and> distinct (map cat_id (categories cm)) \<and>
            cat_id (last (categories cm)) = ident \<and> dir = DOWN
              \<longrightarrow> s' = s)"
proof -
  let ?cs = "categories cm"
  have first: "moveCategory ident dir s = Inr s"
    if "?cs \<noteq> [] \<and> cat_id (hd ?cs) = ident \<and> dir = UP"
  proof -
    have "findIndex (\<lambda>c. cat_id c = ident) ?cs = 0"
      using that by (intro findIndex_hd) simp_all
    then show ?thesis using cur that by (simp add: moveCategory_def Let_def)
  qed
  have last: "moveCategory ident dir s = Inr s"
    if "?cs \<noteq> [] \<and> distinct (map cat_id ?cs) \<and> cat_id (last ?cs) = ident \<and> dir = DOWN"
  proof -
    have l: "length ?cs - 1 < length ?cs" using that by simp
    have idl: "cat_id (?cs ! (length ?cs - 1)) = ident"
      using that by (auto simp: last_conv_nth)
    have "findIndex (\<lambda>c. cat_id c = cat_id (?cs ! (length ?cs - 1))) ?cs = int (length ?cs - 1)"
      using that l by (intro findIndex_key_distinct) simp_all
    then have "findIndex (\<lambda>c. cat_id c = ident) ?cs = int (length ?cs - 1)"
      unfolding idl .
    then show ?thesis using cur that l by (simp add: moveCategory_def Let_def)
  qed
  from moveCategory_cases [OF cur, of ident dir]
  show ?thesis
  proof
    assume same: "moveCategory ident dir s = Inr s"
    show ?thesis
      by (rule exI [of _ s], rule exI [of _ cm]) (simp add: same cur)
  next
    assume "\<exists>i t. i < length ?cs \<and> t < length ?cs \<and>
            moveCategory ident dir s =
              Inr (updateMonth (cm\<lparr>categories := insertAt t (?cs ! i) (removeAt i ?cs)\<rparr>) s)"
    then obtain i t where i: "i < length ?cs" and t: "t < length ?cs"
      and run: "moveCategory ident dir s =
              Inr (updateMonth (cm\<lparr>categories := insertAt t (?cs ! i) (removeAt i ?cs)\<rparr>) s)"
      by blast
    let ?cm' = "cm\<lparr>categories := insertAt t (?cs ! i) (removeAt i ?cs)\<rparr>"
    have c: "currentMonth (updateMonth ?cm' s) = Some ?cm'"
      by (rule currentMonth_updateMonth [OF cur])
    have m: "mset (categories ?cm') = mset ?cs"
      using mset_move [OF i t] by simp
    have f: "?cs \<noteq> [] \<and> cat_id (hd ?cs) = ident \<and> dir = UP \<longrightarrow> updateMonth ?cm' s = s"
      using first run by auto
    have l: "?cs \<noteq> [] \<and> distinct (map cat_id ?cs) \<and> cat_id (last ?cs) = ident \<and> dir = DOWN
             \<longrightarrow> updateMonth ?cm' s = s"
      using last run by auto
    show ?thesis
      apply (rule exI [of _ "updateMonth ?cm' s"], rule exI [of _ ?cm'])
      using run c m f l by simp
  qed
qed

theorem moveCategory_permutation_witness:
  "currentMonth demo_state = Some demo_january \<and>
   map_option categories (resultingMonth (moveCategory ''r4t8w2q6z'' UP demo_state))
     = Some [demo_rent, demo_groceries] \<and>
   mset [demo_rent, demo_groceries] = mset (categories demo_january) \<and>
   categories demo_january \<noteq> [] \<and> cat_id (hd (categories demo_january)) = ''g7h2k9d1s'' \<and>
   moveCategory ''g7h2k9d1s'' UP demo_state = Inr demo_state \<and>
   distinct (map cat_id (categories demo_january)) \<and>
   cat_id (last (categories demo_january)) = ''r4t8w2q6z'' \<and>
   moveCategory ''r4t8w2q6z'' DOWN demo_state = Inr demo_state"
proof -
  note th = moveCategory_permutation [OF demo_currentMonth]
  have h1: "categories demo_january \<noteq> [] \<and> cat_id (hd (categories demo_january)) = ''g7h2k9d1s''"
    by (simp add: demo_january_def demo_groceries_def)
  have h2: "cat_id (last (categories demo_january)) = ''r4t8w2q6z''"
    by (simp add: demo_january_def demo_rent_def)
  have up: "moveCategory ''g7h2k9d1s'' UP demo_state = Inr demo_state"
    using th [of "''g7h2k9d1s''" UP] h1 by auto
  have down: "moveCategory ''r4t8w2q6z'' DOWN demo_state = Inr demo_state"
    using th [of "''r4t8w2q6z''" DOWN] h1 h2 demo_distinct by auto
  have mv: "map_option categories (resultingMonth (moveCategory ''r4t8w2q6z'' UP demo_state))
     = Some [demo_rent, demo_groceries]"
    by (simp add: resultingMonth_def moveCategory_def currentMonth_def nth_opt_def updateMonth_eq
        Let_def insertAt_def removeAt_def demo_defs)
  have ms: "mset [demo_rent, demo_groceries] = mset (categories demo_january)"
    by (simp add: demo_january_def)
  show ?thesis
    using demo_currentMonth h1 h2 up down demo_distinct mv ms by simp
qed

section \<open>Copying the plan to the next month\<close>

lemma copied_names:
  "map cat_name (map (\<lambda>(k, c). c\<lparr>cat_id := r k, transactions := []\<rparr>) (enumerate n cs))
   = map cat_name cs"
  by (induction cs arbitrary: n) simp_all

lemma copied_icons:
  "map icon (map (\<lambda>(k, c). c\<lparr>cat_id := r k, transactions := []\<rparr>) (enumerate n cs))
   = map icon cs"
  by (induction cs arbitrary: n) simp_all

lemma copied_amounts:
  "map allocatedAmount (map (\<lambda>(k, c). c\<lparr>cat_id := r k, transactions := []\<rparr>) (enumerate n cs))
   = map allocatedAmount cs"
  by (induction cs arbitrary: n) simp_all

lemma copied_transactions:
  "map transactions (map (\<lambda>(k, c). c\<lparr>cat_id := r k, transactions := []\<rparr>) (enumerate n cs))
   = replicate (length cs) []"
  by (induction cs arbitrary: n) simp_all

lemma copied_ids:
  "map cat_id (map (\<lambda>(k, c). c\<lparr>cat_id := r k, transactions := []\<rparr>) (enumerate n cs))
   = map r [n..<n + length cs]"
proof (induction cs arbitrary: n)
  case Nil
  show ?case by simp
next
  case (Cons c cs)
  have "[n..<n + length (c # cs)] = n # [Suc n..<Suc n + length cs]"
    by (subst upt_rec) simp
  then show ?case using Cons.IH [of "Suc n"] by simp
qed

text \<open>
  C8. From a month at an index below 11, copying the plan (the next month being
  \<open>NOT_STARTED\<close>, or the user confirming the overwrite) replaces the next month by
  itself with status \<open>ACTIVE\<close>, the total budget and the note of the source month, and
  categories that have the names, icons and allocations of the source categories, in
  order, with empty transaction lists and with the identifiers the generator draws for
  them (nothing is taken from the source identifiers). No other month changes. When the
  user declines the overwrite the state is returned as it is. At index 11 the ledger is
  unchanged and the message that copying across years is not implemented is shown.
\<close>

theorem handleCopyPlan_effect:
  assumes cur: "currentMonth s = Some cm"
  shows "(selectedMonthIndex s < 11 \<and>
          nth_opt (months (yearData s)) (selectedMonthIndex s + 1) = Some nm \<and>
          (status nm = NOT_STARTED \<or> confirm e) \<longrightarrow>
            (\<exists>s' nm'.
               handleCopyPlan e s = Inr s' \<and>
               months (yearData s') = (months (yearData s))[selectedMonthIndex s + 1 := nm'] \<and>
               nm' = nm\<lparr>status := ACTIVE, totalBudget := totalBudget cm,
                        month_note := month_note cm, categories := categories nm'\<rparr> \<and>
               map cat_name (categories nm') = map cat_name (categories cm) \<and>
               map icon (categories nm') = map icon (categories cm) \<and>
               map allocatedAmount (categories nm') = map allocatedAmount (categories cm) \<and>
               map transactions (categories nm') = replicate (length (categories cm)) [] \<and>
               map cat_id (categories nm') = map (randomId e) [0..<length (categories cm)])) \<and>
         (selectedMonthIndex s < 11 \<and>
          nth_opt (months (yearData s)) (selectedMonthIndex s + 1) = Some nm \<and>
          status nm \<noteq> NOT_STARTED \<and> \<not> confirm e \<longrightarrow> handleCopyPlan e s = Inr s) \<and>
         (selectedMonthIndex s = 11 \<longrightarrow>
            (\<exists>s'. handleCopyPlan e s = Inr s' \<and> yearData s' = yearData s \<and>
               alerts s' = alerts s @ [''Plan copying across years is not yet implemented.'']))"
proof (intro conjI impI)
  assume a: "selectedMonthIndex s < 11 \<and>
          nth_opt (months (yearData s)) (selectedMonthIndex s + 1) = Some nm \<and>
          (status nm = NOT_STARTED \<or> confirm e)"
  let ?copied = "map (\<lambda>(k, c). c\<lparr>cat_id := randomId e k, transactions := []\<rparr>)
                   (enumerate 0 (categories cm))"
  let ?nm' = "nm\<lparr>status := ACTIVE, totalBudget := totalBudget cm,
                  month_note := month_note cm, categories := ?copied\<rparr>"
  let ?s' = "s\<lparr>yearData := (yearData s)\<lparr>months :=
                  (months (yearData s))[selectedMonthIndex s + 1 := ?nm']\<rparr>,
                selectedMonthIndex := selectedMonthIndex s + 1, activeView := DETAIL\<rparr>"
  have run: "handleCopyPlan e s = Inr ?s'"
    using cur a by (auto simp: handleCopyPlan_def Let_def)
  have "handleCopyPlan e s = Inr ?s' \<and>
        months (yearData ?s') = (months (yearData s))[selectedMonthIndex s + 1 := ?nm'] \<and>
        ?nm' = nm\<lparr>status := ACTIVE, totalBudget := totalBudget cm,
                    month_note := month_note cm, categories := categories ?nm'\<rparr> \<and>
        map cat_name (categories ?nm') = map cat_name (categories cm) \<and>
        map icon (categories ?nm') = map icon (categories cm) \<and>
        map allocatedAmount (categories ?nm') = map allocatedAmount (categories cm) \<and>
        map transactions (categories ?nm') = replicate (length (categories cm)) [] \<and>
        map cat_id (categories ?nm') = map (randomId e) [0..<length (categories cm)]"
    using run copied_names [of "randomId e" 0 "categories cm"]
      copied_icons [of "randomId e" 0 "categories cm"]
      copied_amounts [of "randomId e" 0 "categories cm"]
      copied_transactions [of "randomId e" 0 "categories cm"]
      copied_ids [of "randomId e" 0 "categories cm"]
    by simp
  then show "\<exists>s' nm'.
               handleCopyPlan e s = Inr s' \<and>
               months (yearData s') = (months (yearData s))[selectedMonthIndex s + 1 := nm'] \<and>
               nm' = nm\<lparr>status := ACTIVE, totalBudget := totalBudget cm,
                        month_note := month_note cm, categories := categories nm'\<rparr> \<and>
               map cat_name (categories nm') = map cat_name (categories cm) \<and>
               map icon (categories nm') = map icon (categories cm) \<and>
               map allocatedAmount (categories nm') = map allocatedAmount (categories cm) \<and>
               map transactions (categories nm') = replicate (length (categories cm)) [] \<and>
               map cat_id (categories nm') = map (randomId e) [0..<length (categories cm)]"
    by blast
next
  assume "selectedMonthIndex s < 11 \<and>
          nth_opt (months (yearData s)) (selectedMonthIndex s + 1) = Some nm \<and>
          status nm \<noteq> NOT_STARTED \<and> \<not> confirm e"
  then show "handleCopyPlan e s = Inr s"
    using cur by (auto simp: handleCopyPlan_def Let_def)
next
  assume "selectedMonthIndex s = 11"
  then show "\<exists>s'. handleCopyPlan e s = Inr s' \<and> yearData s' = yearData s \<and>
               alerts s' = alerts s @ [''Plan copying across years is not yet implemented.'']"
    using cur by (simp add: handleCopyPlan_def Let_def)
qed


theorem handleCopyPlan_effect_witness:
  "currentMonth demo_state = Some demo_january \<and>
   selectedMonthIndex demo_state < 11 \<and>
   nth_opt (months (yearData demo_state)) (selectedMonthIndex demo_state + 1)
     = Some (emptyMonth 2026 1) \<and>
   status (emptyMonth 2026 1) = NOT_STARTED \<and>
   (\<exists>s' nm'. handleCopyPlan demo_env demo_state = Inr s' \<and>
      nth_opt (months (yearData s')) 1 = Some nm' \<and>
      status nm' = ACTIVE \<and> totalBudget nm' = Num 1600 \<and> month_note nm' = Some ''Salary'' \<and>
      map cat_name (categories nm') = [''Groceries'', ''Rent''] \<and>
      map allocatedAmount (categories nm') = [Num 400, Num 1200] \<and>
      map transactions (categories nm') = [[], []] \<and>
      map cat_id (categories nm') = [''q1w2e3r4t'', ''a5s6d7f8g'']) \<and>
   currentMonth (demo_state\<lparr>selectedMonthIndex := 11\<rparr>) = Some (emptyMonth 2026 11) \<and>
   (\<exists>s'. handleCopyPlan demo_env (demo_state\<lparr>selectedMonthIndex := 11\<rparr>) = Inr s' \<and>
      yearData s' = demo_year \<and>
      alerts s' = [''Plan copying across years is not yet implemented.'']) \<and>
   currentMonth (demo_state\<lparr>selectedMonthIndex := 10,
       yearData := demo_year\<lparr>months := (months demo_year)[11 := demo_january]\<rparr>\<rparr>)
     = Some (emptyMonth 2026 10) \<and>
   status demo_january \<noteq> NOT_STARTED \<and> \<not> confirm (demo_env\<lparr>confirm := False\<rparr>) \<and>
   handleCopyPlan (demo_env\<lparr>confirm := False\<rparr>)
     (demo_state\<lparr>selectedMonthIndex := 10,
        yearData := demo_year\<lparr>months := (months demo_year)[11 := demo_january]\<rparr>\<rparr>)
     = Inr (demo_state\<lparr>selectedMonthIndex := 10,
        yearData := demo_year\<lparr>months := (months demo_year)[11 := demo_january]\<rparr>\<rparr>)"
proof -
  let ?s11 = "demo_state\<lparr>selectedMonthIndex := 11\<rparr>"
  let ?s10 = "demo_state\<lparr>selectedMonthIndex := 10,
       yearData := demo_year\<lparr>months := (months demo_year)[11 := demo_january]\<rparr>\<rparr>"
  have a1: "selectedMonthIndex demo_state < 11"
    and a2: "nth_opt (months (yearData demo_state)) (selectedMonthIndex demo_state + 1)
               = Some (emptyMonth 2026 1)"
    and a3: "status (emptyMonth 2026 1) = NOT_STARTED"
    by (simp_all add: demo_state_def demo_year_def nth_opt_def emptyMonth_def)
  obtain s' nm' where r: "handleCopyPlan demo_env demo_state = Inr s'"
    and m: "months (yearData s') = (months (yearData demo_state))[selectedMonthIndex demo_state + 1 := nm']"
    and n: "nm' = (emptyMonth 2026 1)\<lparr>status := ACTIVE, totalBudget := totalBudget demo_january,
                        month_note := month_note demo_january, categories := categories nm'\<rparr>"
    and c1: "map cat_name (categories nm') = map cat_name (categories demo_january)"
    and c2: "map allocatedAmount (categories nm') = map allocatedAmount (categories demo_january)"
    and c3: "map transactions (categories nm') = replicate (length (categories demo_january)) []"
    and c4: "map cat_id (categories nm') = map (randomId demo_env) [0..<length (categories demo_january)]"
    using handleCopyPlan_effect [OF demo_currentMonth, of "emptyMonth 2026 1" demo_env] a1 a2 a3
    by blast
  have m': "nth_opt (months (yearData s')) 1 = Some nm'"
    unfolding m by (simp add: demo_state_def demo_year_def nth_opt_def)
  have n': "status nm' = ACTIVE" "totalBudget nm' = Num 1600" "month_note nm' = Some ''Salary''"
    by (subst n, simp add: demo_january_def)+
  have c1': "map cat_name (categories nm') = [''Groceries'', ''Rent'']"
    unfolding c1 by (simp add: demo_january_def demo_groceries_def demo_rent_def)
  have c2': "map allocatedAmount (categories nm') = [Num 400, Num 1200]"
    unfolding c2 by (simp add: demo_january_def demo_groceries_def demo_rent_def)
  have c3': "map transactions (categories nm') = [[], []]"
    unfolding c3 by (simp add: demo_january_def numeral_2_eq_2)
  have "[0..<length (categories demo_january)] = [0, 1]"
    by (simp add: demo_january_def upt_rec)
  then have c4': "map cat_id (categories nm') = [''q1w2e3r4t'', ''a5s6d7f8g'']"
    unfolding c4 by (simp add: demo_env_def)
  have first: "\<exists>s' nm'. handleCopyPlan demo_env demo_state = Inr s' \<and>
      nth_opt (months (yearData s')) 1 = Some nm' \<and>
      status nm' = ACTIVE \<and> totalBudget nm' = Num 1600 \<and> month_note nm' = Some ''Salary'' \<and>
      map cat_name (categories nm') = [''Groceries'', ''Rent''] \<and>
      map allocatedAmount (categories nm') = [Num 400, Num 1200] \<and>
      map transactions (categories nm') = [[], []] \<and>
      map cat_id (categories nm') = [''q1w2e3r4t'', ''a5s6d7f8g'']"
    by (intro exI [of _ s'] exI [of _ nm'] conjI r m' n' c1' c2' c3' c4')
  have b1: "currentMonth ?s11 = Some (emptyMonth 2026 11)"
    by (simp add: currentMonth_def nth_opt_def demo_state_def demo_year_def)
  have b2: "selectedMonthIndex ?s11 = 11" by simp
  obtain t' where "handleCopyPlan demo_env ?s11 = Inr t'" "yearData t' = yearData ?s11"
    "alerts t' = alerts ?s11 @ [''Plan copying across years is not yet implemented.'']"
    using handleCopyPlan_effect [OF b1, of demo_january demo_env] b2 by blast
  then have last: "\<exists>s'. handleCopyPlan demo_env ?s11 = Inr s' \<and> yearData s' = demo_year \<and>
      alerts s' = [''Plan copying across years is not yet implemented.'']"
    by (simp add: demo_state_def)
  have d1: "currentMonth ?s10 = Some (emptyMonth 2026 10)"
    by (simp add: currentMonth_def nth_opt_def demo_year_def)
  have d2: "selectedMonthIndex ?s10 < 11"
    and d3: "nth_opt (months (yearData ?s10)) (selectedMonthIndex ?s10 + 1) = Some demo_january"
    and d4: "status demo_january \<noteq> NOT_STARTED"
    and d5: "\<not> confirm (demo_env\<lparr>confirm := False\<rparr>)"
    by (simp_all add: nth_opt_def demo_year_def demo_january_def)
  have declined: "handleCopyPlan (demo_env\<lparr>confirm := False\<rparr>) ?s10 = Inr ?s10"
    using handleCopyPlan_effect [OF d1, of demo_january "demo_env\<lparr>confirm := False\<rparr>"] d2 d3 d4 d5
    by blast
  show ?thesis
    by (intro conjI demo_currentMonth a1 a2 a3 first b1 last d1 d4 d5 declined)
qed


section \<open>What changes the total budget\<close>















section \<open>The guards on the amount\<close>

lemma sum_list_strict:
  assumes "\<forall>c\<in>set cs. f c \<le> (g c :: nat)" and "\<exists>c\<in>set cs. f c < g c"
  shows "sum_list (map f cs) < sum_list (map g cs)"
  using assms
proof (induction cs)
  case Nil
  then show ?case by simp
next
  case (Cons c cs)
  have le: "sum_list (map f cs) \<le> sum_list (map g cs)"
    using Cons.prems(1) by (intro sum_list_mono) simp
  show ?case
  proof (cases "f c < g c")
    case True
    then show ?thesis using le by simp
  next
    case False
    then have "\<exists>c\<in>set cs. f c < g c" using Cons.prems(2) by auto
    then have "sum_list (map f cs) < sum_list (map g cs)"
      using Cons.IH Cons.prems(1) by simp
    moreover have "f c \<le> g c" using Cons.prems(1) by simp
    ultimately show ?thesis by simp
  qed
qed

text \<open>
  C4, as the handlers have it. Setup finalization is not performed, and the state is
  returned as it is, when every entry has an empty trimmed name or an amount that parses
  to \<open>NaN\<close> or to a value \<open>\<le> 0\<close>. A transfer is not performed, and the state is returned
  as it is, when no category is selected, the amount field is empty, no source is chosen
  or the chosen source is not a category of the month. The handler does not test the
  sign of the parsed amount: once those guards pass, a transfer whose amount parses to
  a number, positive or not, is performed and appends its transactions.
\<close>

theorem amount_guards:
  assumes cur: "currentMonth s = Some cm"
  shows "((\<forall>sc\<in>set (setupCategories s).
             trim (se_name sc) = [] \<or> parseFloat e (se_amount sc) = NaN \<or>
             parseFloat e (se_amount sc) = NegInf \<or> parseFloat e (se_amount sc) = NegZero \<or>
             (\<exists>r. r \<le> 0 \<and> parseFloat e (se_amount sc) = Num r))
            \<longrightarrow> finalizeSetup e s = Inr s) \<and>
         (selectedCategory s = None \<or> tf_amount (transferForm s) = [] \<or>
          fromCategoryId (transferForm s) = [] \<or>
          fromCategoryId (transferForm s) \<notin> set (map cat_id (categories cm))
            \<longrightarrow> handleTransfer e s = Inr s) \<and>
         (selectedCategory s \<noteq> None \<and> tf_amount (transferForm s) \<noteq> [] \<and>
          fromCategoryId (transferForm s) \<noteq> [] \<and>
          fromCategoryId (transferForm s) \<in> set (map cat_id (categories cm)) \<and>
          parseFloat e (tf_amount (transferForm s)) \<noteq> NaN
            \<longrightarrow> (\<exists>s' cm'. handleTransfer e s = Inr s' \<and> currentMonth s' = Some cm' \<and>
                   transactionCount (categories cm) < transactionCount (categories cm')))"
proof (intro conjI impI)
  assume a: "\<forall>sc\<in>set (setupCategories s).
             trim (se_name sc) = [] \<or> parseFloat e (se_amount sc) = NaN \<or>
             parseFloat e (se_amount sc) = NegInf \<or> parseFloat e (se_amount sc) = NegZero \<or>
             (\<exists>r. r \<le> 0 \<and> parseFloat e (se_amount sc) = Num r)"
  have "\<not> (trim (se_name sc) \<noteq> [] \<and> gt (orNum (parseFloat e (se_amount sc)) (Num 0)) (Num 0))"
    if "sc \<in> set (setupCategories s)" for sc
    using a that by (auto simp: orNum_def)
  then have "filter (\<lambda>sc. trim (se_name sc) \<noteq> [] \<and>
                      gt (orNum (parseFloat e (se_amount sc)) (Num 0)) (Num 0))
               (setupCategories s) = []"
    by (simp add: filter_empty_conv)
  then show "finalizeSetup e s = Inr s"
    using cur by (simp add: finalizeSetup_def)
next
  assume "selectedCategory s = None \<or> tf_amount (transferForm s) = [] \<or>
          fromCategoryId (transferForm s) = [] \<or>
          fromCategoryId (transferForm s) \<notin> set (map cat_id (categories cm))"
  then show "handleTransfer e s = Inr s"
    using cur find_key_None [of "fromCategoryId (transferForm s)" cat_id "categories cm"]
    by (auto simp: handleTransfer_def Let_def split: option.splits)
next
  assume a: "selectedCategory s \<noteq> None \<and> tf_amount (transferForm s) \<noteq> [] \<and>
          fromCategoryId (transferForm s) \<noteq> [] \<and>
          fromCategoryId (transferForm s) \<in> set (map cat_id (categories cm)) \<and>
          parseFloat e (tf_amount (transferForm s)) \<noteq> NaN"
  then obtain sel where sel: "selectedCategory s = Some sel" by auto
  from a obtain fromCat where
    fnd: "find (\<lambda>c. cat_id c = fromCategoryId (transferForm s)) (categories cm) = Some fromCat"
    by (cases "find (\<lambda>c. cat_id c = fromCategoryId (transferForm s)) (categories cm)")
      (auto simp: find_None_iff)
  then have mem: "fromCat \<in> set (categories cm)"
    by (auto simp: find_Some_iff)
  obtain tout tin cs' where out: "tout =
      \<lparr>tx_id = randomId e 0, tx_date = today e,
       tx_description =
         (if trim (tf_note (transferForm s)) \<noteq> [] then ''Out: '' @ trim (tf_note (transferForm s))
          else ''To '' @ cat_name sel),
       tx_amount = parseFloat e (tf_amount (transferForm s)), tx_type = TRANSFER_OUT,
       fromCategory = None, toCategory = None\<rparr>"
    and inn: "tin =
      \<lparr>tx_id = randomId e 1, tx_date = today e,
       tx_description =
         (if trim (tf_note (transferForm s)) \<noteq> [] then ''In: '' @ trim (tf_note (transferForm s))
          else ''From '' @ cat_name fromCat),
       tx_amount = parseFloat e (tf_amount (transferForm s)), tx_type = TRANSFER_IN,
       fromCategory = None, toCategory = None\<rparr>"
    and cs': "cs' =
      map (\<lambda>c. if cat_id c = cat_id fromCat
                then c\<lparr>allocatedAmount :=
                         sub (allocatedAmount c) (parseFloat e (tf_amount (transferForm s))),
                       transactions := transactions c @ [tout]\<rparr>
                else if cat_id c = cat_id sel
                then c\<lparr>allocatedAmount :=
                         add (allocatedAmount c) (parseFloat e (tf_amount (transferForm s))),
                       transactions := transactions c @ [tin]\<rparr>
                else c) (categories cm)"
    by blast
  let ?s' = "s\<lparr>yearData := (yearData s)\<lparr>months :=
                    (months (yearData s))[selectedMonthIndex s := cm\<lparr>categories := cs'\<rparr>]\<rparr>,
                  isTransferModalOpen := False,
                  transferForm := \<lparr>tf_amount = [], fromCategoryId = [], tf_note = []\<rparr>\<rparr>"
  have run: "handleTransfer e s = Inr ?s'"
    using a by (intro handleTransfer_run [OF cur sel _ _ fnd out inn cs']) simp_all
  have c: "currentMonth ?s' = Some (cm\<lparr>categories := cs'\<rparr>)"
    using currentMonth_in_range [OF cur] by (simp add: currentMonth_def nth_opt_def)
  have "transactionCount (categories cm) < transactionCount cs'"
    unfolding transactionCount_def cs' map_map
    by (rule sum_list_strict) (use mem in \<open>auto intro!: bexI [of _ fromCat]\<close>)
  then show "\<exists>s' cm'. handleTransfer e s = Inr s' \<and> currentMonth s' = Some cm' \<and>
                   transactionCount (categories cm) < transactionCount (categories cm')"
    using run c by (intro exI [of _ ?s'] exI [of _ "cm\<lparr>categories := cs'\<rparr>"]) simp
qed

theorem amount_guards_witness:
  "parseFloat demo_env ''0'' = Num 0 \<and> parseFloat demo_env ''-5'' = Num (- 5) \<and>
   parseFloat demo_env ''abc'' = NaN \<and>
   finalizeSetup demo_env
     (demo_state\<lparr>setupCategories :=
        [\<lparr>se_name = ''Rent'', se_amount = ''0''\<rparr>, \<lparr>se_name = ''Fun'', se_amount = ''-5''\<rparr>,
         \<lparr>se_name = ''Car'', se_amount = ''abc''\<rparr>, \<lparr>se_name = '' '', se_amount = ''300''\<rparr>]\<rparr>)
     = Inr (demo_state\<lparr>setupCategories :=
        [\<lparr>se_name = ''Rent'', se_amount = ''0''\<rparr>, \<lparr>se_name = ''Fun'', se_amount = ''-5''\<rparr>,
         \<lparr>se_name = ''Car'', se_amount = ''abc''\<rparr>, \<lparr>se_name = '' '', se_amount = ''300''\<rparr>]\<rparr>) \<and>
   handleTransfer demo_env
     (demo_state\<lparr>transferForm := \<lparr>tf_amount = [], fromCategoryId = ''r4t8w2q6z'', tf_note = []\<rparr>\<rparr>)
     = Inr (demo_state\<lparr>transferForm :=
              \<lparr>tf_amount = [], fromCategoryId = ''r4t8w2q6z'', tf_note = []\<rparr>\<rparr>) \<and>
   transactionCount (categories demo_january) = 0 \<and>
   (\<exists>s' cm'. handleTransfer demo_env
        (demo_state\<lparr>transferForm :=
           \<lparr>tf_amount = ''-5'', fromCategoryId = ''r4t8w2q6z'', tf_note = []\<rparr>\<rparr>) = Inr s' \<and>
      currentMonth s' = Some cm' \<and> 0 < transactionCount (categories cm'))"
proof -
  let ?s1 = "demo_state\<lparr>setupCategories :=
        [\<lparr>se_name = ''Rent'', se_amount = ''0''\<rparr>, \<lparr>se_name = ''Fun'', se_amount = ''-5''\<rparr>,
         \<lparr>se_name = ''Car'', se_amount = ''abc''\<rparr>, \<lparr>se_name = '' '', se_amount = ''300''\<rparr>]\<rparr>"
  let ?s2 = "demo_state\<lparr>transferForm :=
        \<lparr>tf_amount = [], fromCategoryId = ''r4t8w2q6z'', tf_note = []\<rparr>\<rparr>"
  let ?s3 = "demo_state\<lparr>transferForm :=
        \<lparr>tf_amount = ''-5'', fromCategoryId = ''r4t8w2q6z'', tf_note = []\<rparr>\<rparr>"
  have p: "parseFloat demo_env ''0'' = Num 0" "parseFloat demo_env ''-5'' = Num (- 5)"
    "parseFloat demo_env ''abc'' = NaN"
    by (simp_all add: demo_env_def parseFloat_sample_def)
  have c1: "currentMonth ?s1 = Some demo_january"
    and c2: "currentMonth ?s2 = Some demo_january"
    and c3: "currentMonth ?s3 = Some demo_january"
    by (simp_all add: currentMonth_def nth_opt_def demo_state_def demo_year_def)
  have h1: "\<forall>sc\<in>set (setupCategories ?s1).
             trim (se_name sc) = [] \<or> parseFloat demo_env (se_amount sc) = NaN \<or>
             parseFloat demo_env (se_amount sc) = NegInf \<or>
             parseFloat demo_env (se_amount sc) = NegZero \<or>
             (\<exists>r. r \<le> 0 \<and> parseFloat demo_env (se_amount sc) = Num r)"
    by (simp add: p trim_defs)
  have r1: "finalizeSetup demo_env ?s1 = Inr ?s1"
    using amount_guards [OF c1, of demo_env] h1 by blast
  have h2: "tf_amount (transferForm ?s2) = []" by simp
  have r2: "handleTransfer demo_env ?s2 = Inr ?s2"
    using amount_guards [OF c2, of demo_env] h2 by blast
  have h3: "selectedCategory ?s3 \<noteq> None \<and> tf_amount (transferForm ?s3) \<noteq> [] \<and>
          fromCategoryId (transferForm ?s3) \<noteq> [] \<and>
          fromCategoryId (transferForm ?s3) \<in> set (map cat_id (categories demo_january)) \<and>
          parseFloat demo_env (tf_amount (transferForm ?s3)) \<noteq> NaN"
    by (simp add: p demo_state_def demo_january_def demo_rent_def)
  have z: "transactionCount (categories demo_january) = 0"
    by (simp add: transactionCount_def demo_january_def demo_groceries_def demo_rent_def)
  have r3: "\<exists>s' cm'. handleTransfer demo_env ?s3 = Inr s' \<and> currentMonth s' = Some cm' \<and>
      0 < transactionCount (categories cm')"
    using amount_guards [OF c3, of demo_env] h3 unfolding z by blast
  show ?thesis
    by (intro conjI p r1 r2 z r3)
qed

text \<open>
  C4 as stated says that a transfer whose amount parses to a value \<open>\<le> 0\<close> is not
  performed. In the scenario a transfer of \<open>-5\<close> from Rent to Groceries is performed:
  the allocations 400 and 1200 become 395 and 1205 and both transactions are appended.
\<close>

theorem handleTransfer_negative_amount:
  "parseFloat demo_env ''-5'' = Num (- 5) \<and>
   map_option (\<lambda>m. map allocatedAmount (categories m))
     (currentMonth (demo_state\<lparr>transferForm :=
        \<lparr>tf_amount = ''-5'', fromCategoryId = ''r4t8w2q6z'', tf_note = []\<rparr>\<rparr>))
     = Some [Num 400, Num 1200] \<and>
   map_option (\<lambda>m. map allocatedAmount (categories m))
     (resultingMonth (handleTransfer demo_env (demo_state\<lparr>transferForm :=
        \<lparr>tf_amount = ''-5'', fromCategoryId = ''r4t8w2q6z'', tf_note = []\<rparr>\<rparr>)))
     = Some [Num 395, Num 1205] \<and>
   map_option (\<lambda>m. map (\<lambda>c. map tx_type (transactions c)) (categories m))
     (resultingMonth (handleTransfer demo_env (demo_state\<lparr>transferForm :=
        \<lparr>tf_amount = ''-5'', fromCategoryId = ''r4t8w2q6z'', tf_note = []\<rparr>\<rparr>)))
     = Some [[TRANSFER_IN], [TRANSFER_OUT]]"
  by (simp add: resultingMonth_def handleTransfer_def currentMonth_def nth_opt_def updateMonth_eq
      Let_def trim_defs sub_Num demo_defs)

section \<open>Setup finalization\<close>

lemma finalizeSetup_effect:
  assumes cur: "currentMonth s = Some cm"
    and valid: "valid = filter (\<lambda>sc. trim (se_name sc) \<noteq> [] \<and>
                          gt (orNum (parseFloat e (se_amount sc)) (Num 0)) (Num 0))
                   (setupCategories s)"
    and some: "valid \<noteq> []"
  shows "\<exists>cm'. resultingMonth (finalizeSetup e s) = Some cm' \<and> status cm' = ACTIVE \<and>
           map cat_name (categories cm') = map (\<lambda>sc. trim (se_name sc)) valid \<and>
           map allocatedAmount (categories cm') =
             map (\<lambda>sc. orNum (parseFloat e (se_amount sc)) (Num 0)) valid \<and>
           totalBudget cm' = computedSetupTotal e s"
proof -
  let ?f = "\<lambda>sc. orNum (parseFloat e (se_amount sc)) (Num 0)"
  let ?mk = "\<lambda>(k, sc). \<lparr>cat_id = randomId e k, cat_name = trim (se_name sc),
                icon = trim (se_name sc), allocatedAmount = ?f sc, transactions = []\<rparr>"
  let ?cs = "map ?mk (enumerate 0 valid)"
  let ?cm' = "cm\<lparr>status := ACTIVE, totalBudget := computedSetupTotal e s,
                  month_note := Some (trim (setupNote s)), categories := ?cs\<rparr>"
  have res: "resultingMonth (finalizeSetup e s) = Some ?cm'"
    using cur some currentMonth_in_range [OF cur] unfolding valid
    by (simp add: finalizeSetup_def resultingMonth_def Let_def updateMonth_eq currentMonth_def
        nth_opt_def)
  have names: "map cat_name (map ?mk (enumerate n xs)) = map (\<lambda>sc. trim (se_name sc)) xs" for n xs
    by (induction xs arbitrary: n) simp_all
  have amounts: "map allocatedAmount (map ?mk (enumerate n xs)) = map ?f xs" for n xs
    by (induction xs arbitrary: n) simp_all
  have "resultingMonth (finalizeSetup e s) = Some ?cm' \<and> status ?cm' = ACTIVE \<and>
        map cat_name (categories ?cm') = map (\<lambda>sc. trim (se_name sc)) valid \<and>
        map allocatedAmount (categories ?cm') = map ?f valid \<and>
        totalBudget ?cm' = computedSetupTotal e s"
  proof (intro conjI)
    show "resultingMonth (finalizeSetup e s) = Some ?cm'" by (rule res)
    show "map cat_name (categories ?cm') = map (\<lambda>sc. trim (se_name sc)) valid"
      using names [of 0 valid] by simp
    show "map allocatedAmount (categories ?cm') = map ?f valid"
      using amounts [of 0 valid] by simp
  qed simp_all
  then show ?thesis by (rule exI [of _ ?cm'])
qed

text \<open>
  C1. \<open>finalizeSetup\<close> keeps the valid entries as the categories and sets the status to
  \<open>ACTIVE\<close>, but it stores \<open>computedSetupTotal\<close>, the sum over all entries of the setup
  form, as the total budget (lemma \<open>finalizeSetup_effect\<close>): an entry that is dropped
  for its empty name, or for its negative amount, still counts. With the entries
  (Rent, 1200) and (no name, 300) on the not yet started February, the only category
  is Rent with 1200, and the total budget is 1500.
\<close>

theorem finalizeSetup_total_counts_dropped_entry:
  "setupCategories demo_state =
     [\<lparr>se_name = ''Rent'', se_amount = ''1200''\<rparr>, \<lparr>se_name = [], se_amount = ''300''\<rparr>] \<and>
   map_option status (currentMonth (demo_state\<lparr>selectedMonthIndex := 1\<rparr>)) = Some NOT_STARTED \<and>
   map_option status
     (resultingMonth (finalizeSetup demo_env (demo_state\<lparr>selectedMonthIndex := 1\<rparr>)))
     = Some ACTIVE \<and>
   map_option categories
     (resultingMonth (finalizeSetup demo_env (demo_state\<lparr>selectedMonthIndex := 1\<rparr>)))
     = Some [\<lparr>cat_id = ''q1w2e3r4t'', cat_name = ''Rent'', icon = ''Rent'',
              allocatedAmount = Num 1200, transactions = []\<rparr>] \<and>
   map_option (\<lambda>m. sumAllocated (categories m))
     (resultingMonth (finalizeSetup demo_env (demo_state\<lparr>selectedMonthIndex := 1\<rparr>)))
     = Some (Num 1200) \<and>
   map_option totalBudget
     (resultingMonth (finalizeSetup demo_env (demo_state\<lparr>selectedMonthIndex := 1\<rparr>)))
     = Some (Num 1500)"
  by (simp add: resultingMonth_def finalizeSetup_def computedSetupTotal_def currentMonth_def
      nth_opt_def updateMonth_eq Let_def trim_defs orNum_def demo_defs)

section \<open>Amounts that do not parse\<close>





end
